theory Spec2Isabelle
  imports Complex_Main
begin

section \<open>Force field (utils/geometry.js)\<close>

text \<open>
  JavaScript numbers are modelled as real numbers, with rounding, overflow and NaN outside
  the model, everywhere but in the second model of \<open>calculateRippleForce\<close> below, which
  computes on numbers with the special values \<open>Infinity\<close>, \<open>-Infinity\<close> and \<open>NaN\<close>.
  \<open>THREE.Vector3\<close> is a triple of numbers with the fields \<open>x\<close>,
  \<open>y\<close>, \<open>z\<close>, read here by the selectors \<open>vx\<close>, \<open>vy\<close>, \<open>vz\<close>; the type of
  the three numbers is a parameter, so that both models share it.
\<close>

datatype 'a vector3 = Vector3 (vx: 'a) (vy: 'a) (vz: 'a)

type_synonym vec3 = "real vector3"

text \<open>
  \<^verbatim>\<open>
  export function calculateRippleForce(position, mousePos, maxDistance = 2, forceMultiplier = 0.02) {
      const dx = position.x - mousePos.x;
      const dy = position.y - mousePos.y;
      const dz = position.z - mousePos.z;
      const dist = Math.sqrt(dx * dx + dy * dy + dz * dz);
      if (dist < maxDistance) {
          const force = (maxDistance - dist) * forceMultiplier;
          return new THREE.Vector3(dx * force, dy * force, dz * force);
      }
      return new THREE.Vector3(0, 0, 0);
  }
  \<close>
  Both callers (the particle loop and the ornament loop of \<open>applyRippleEffect\<close>) pass all
  four arguments, so the default values of the last two are not modelled.
\<close>

definition calculateRippleForce :: "vec3 \<Rightarrow> vec3 \<Rightarrow> real \<Rightarrow> real \<Rightarrow> vec3" where
  "calculateRippleForce position mousePos maxDistance forceMultiplier =
     (let dx = vx position - vx mousePos;
          dy = vy position - vy mousePos;
          dz = vz position - vz mousePos;
          dist = sqrt (dx * dx + dy * dy + dz * dz)
      in if dist < maxDistance
         then (let force = (maxDistance - dist) * forceMultiplier
               in Vector3 (dx * force) (dy * force) (dz * force))
         else Vector3 0 0 0)"

subsection \<open>The force field on numbers with special values\<close>

text \<open>
  A JavaScript number is an IEEE 754 double: a finite value, \<open>Infinity\<close>, \<open>-Infinity\<close>
  or \<open>NaN\<close>. In the type \<open>number\<close> a finite value is \<open>Num x\<close> with \<open>x\<close> a real number.
  The largest finite double is \<open>Number.MAX_VALUE = 2^1024 - 2^971\<close>; rounding to nearest
  turns a result whose magnitude reaches the midpoint \<open>2^1024 - 2^970\<close> between that value
  and \<open>2^1024\<close> into an infinity. This overflow is part of the model (\<open>rounded\<close>); the
  rounding of a result that stays inside the range is not, such a result is kept exact.
  The two zeros \<open>+0\<close> and \<open>-0\<close> are one value \<open>Num 0\<close>: the function divides nowhere,
  and the sign of a zero changes neither the outcome of \<open><\<close> nor whether a product is
  \<open>NaN\<close>.

  The operations follow IEEE 754: \<open>NaN\<close> is absorbing, \<open>Infinity - Infinity\<close> and
  \<open>0 * Infinity\<close> are \<open>NaN\<close>, \<open>Math.sqrt\<close> of a negative number or of \<open>-Infinity\<close> is
  \<open>NaN\<close>, and every comparison with \<open>NaN\<close> is false.
\<close>

datatype number = Num real | Infinity | NegInfinity | NaN

definition overflowThreshold :: real where
  "overflowThreshold = 2 ^ 1024 - 2 ^ 970"

definition rounded :: "real \<Rightarrow> number" where
  "rounded x = (if overflowThreshold \<le> x then Infinity
                else if x \<le> - overflowThreshold then NegInfinity
                else Num x)"

fun nadd :: "number \<Rightarrow> number \<Rightarrow> number" where
  "nadd (Num a) (Num b) = rounded (a + b)"
| "nadd NaN _ = NaN"
| "nadd _ NaN = NaN"
| "nadd Infinity NegInfinity = NaN"
| "nadd NegInfinity Infinity = NaN"
| "nadd Infinity _ = Infinity"
| "nadd _ Infinity = Infinity"
| "nadd NegInfinity _ = NegInfinity"
| "nadd _ NegInfinity = NegInfinity"

fun nneg :: "number \<Rightarrow> number" where
  "nneg (Num a) = Num (- a)"
| "nneg Infinity = NegInfinity"
| "nneg NegInfinity = Infinity"
| "nneg NaN = NaN"

definition nsub :: "number \<Rightarrow> number \<Rightarrow> number" where
  "nsub a b = nadd a (nneg b)"

text \<open>
  The sign of a number, as a real: 0 for a zero and for \<open>NaN\<close>. A product with an
  infinite factor is \<open>NaN\<close> when the signs multiply to 0 (the other factor is a zero or
  \<open>NaN\<close>), and the infinity of the product's sign otherwise.
\<close>

fun signOf :: "number \<Rightarrow> real" where
  "signOf (Num a) = sgn a"
| "signOf Infinity = 1"
| "signOf NegInfinity = - 1"
| "signOf NaN = 0"

definition nmul :: "number \<Rightarrow> number \<Rightarrow> number" where
  "nmul a b =
     (case (a, b) of
        (Num x, Num y) \<Rightarrow> rounded (x * y)
      | _ \<Rightarrow> if signOf a * signOf b = 0 then NaN
             else if 0 < signOf a * signOf b then Infinity
             else NegInfinity)"

fun nsqrt :: "number \<Rightarrow> number" where
  "nsqrt (Num a) = (if a < 0 then NaN else Num (sqrt a))"
| "nsqrt Infinity = Infinity"
| "nsqrt NegInfinity = NaN"
| "nsqrt NaN = NaN"

definition nless :: "number \<Rightarrow> number \<Rightarrow> bool" where
  "nless a b =
     (case (a, b) of
        (Num x, Num y) \<Rightarrow> x < y
      | (Num x, Infinity) \<Rightarrow> True
      | (NegInfinity, Num y) \<Rightarrow> True
      | (NegInfinity, Infinity) \<Rightarrow> True
      | _ \<Rightarrow> False)"

text \<open>
  The function of \<open>utils/geometry.js\<close> once more, statement by statement, on these
  numbers.
\<close>

definition calculateRippleForceNum ::
  "number vector3 \<Rightarrow> number vector3 \<Rightarrow> number \<Rightarrow> number \<Rightarrow> number vector3" where
  "calculateRippleForceNum position mousePos maxDistance forceMultiplier =
     (let dx = nsub (vx position) (vx mousePos);
          dy = nsub (vy position) (vy mousePos);
          dz = nsub (vz position) (vz mousePos);
          dist = nsqrt (nadd (nadd (nmul dx dx) (nmul dy dy)) (nmul dz dz))
      in if nless dist maxDistance
         then (let force = nmul (nsub maxDistance dist) forceMultiplier
               in Vector3 (nmul dx force) (nmul dy force) (nmul dz force))
         else Vector3 (Num 0) (Num 0) (Num 0))"

subsection \<open>Vocabulary of the specification\<close>

text \<open>
  The specification speaks of the difference of two points, of the distance between them,
  of a vector scaled by a number and of the magnitude of a vector. These definitions follow
  the specification's words; the theorems compare them with the code above.
\<close>

definition vsub :: "vec3 \<Rightarrow> vec3 \<Rightarrow> vec3" where
  "vsub p c = Vector3 (vx p - vx c) (vy p - vy c) (vz p - vz c)"

definition vscale :: "real \<Rightarrow> vec3 \<Rightarrow> vec3" where
  "vscale k v = Vector3 (k * vx v) (k * vy v) (k * vz v)"

definition vdot :: "vec3 \<Rightarrow> vec3 \<Rightarrow> real" where
  "vdot u v = vx u * vx v + vy u * vy v + vz u * vz v"

definition vnorm :: "vec3 \<Rightarrow> real" where
  "vnorm v = sqrt (vdot v v)"

definition distance :: "vec3 \<Rightarrow> vec3 \<Rightarrow> real" where
  "distance p c = vnorm (vsub p c)"

text \<open>
  For the model with special values: a point all of whose coordinates are finite, the
  test \<open>Number.isFinite\<close>, and the magnitude of a vector (\<open>Vector3.length\<close> of three.js,
  \<open>Math.sqrt(x * x + y * y + z * z)\<close>).
\<close>

definition finiteVector :: "vec3 \<Rightarrow> number vector3" where
  "finiteVector v = Vector3 (Num (vx v)) (Num (vy v)) (Num (vz v))"

fun isFinite :: "number \<Rightarrow> bool" where
  "isFinite (Num a) = True"
| "isFinite Infinity = False"
| "isFinite NegInfinity = False"
| "isFinite NaN = False"


text \<open>
  A call overflows nowhere when every intermediate result of the function stays below
  the threshold in magnitude.
\<close>

definition inRange :: "real \<Rightarrow> bool" where
  "inRange x = (\<bar>x\<bar> < overflowThreshold)"

definition noOverflow :: "vec3 \<Rightarrow> vec3 \<Rightarrow> real \<Rightarrow> real \<Rightarrow> bool" where
  "noOverflow position mousePos maxDistance forceMultiplier =
     (let dx = vx position - vx mousePos;
          dy = vy position - vy mousePos;
          dz = vz position - vz mousePos;
          dist = sqrt (dx * dx + dy * dy + dz * dz);
          force = (maxDistance - dist) * forceMultiplier
      in list_all inRange [dx, dy, dz, dx * dx, dy * dy, dz * dz, dx * dx + dy * dy,
           dx * dx + dy * dy + dz * dz] \<and>
         (dist < maxDistance \<longrightarrow>
            list_all inRange [maxDistance - dist, force, dx * force, dy * force, dz * force]))"

section \<open>Phase controller and carousel (main module, store.js)\<close>

text \<open>
  The store of \<open>store.js\<close> holds \<open>phase\<close> (one of the strings \<open>'tree'\<close>,
  \<open>'blooming'\<close>, \<open>'nebula'\<close>, \<open>'collapsing'\<close>) and the number
  \<open>carouselRotation\<close>; its fields \<open>mousePosition\<close> and \<open>selectedPhoto\<close> are read
  by none of the functions below and are left out. The main module reads the store with
  \<open>getState\<close> and writes it with \<open>setState\<close>; the setters that \<open>store.js\<close> exports
  besides (\<open>setPhase\<close>, \<open>triggerBlooming\<close> and the like, which write a field without
  any check) are called nowhere and are not part of the model.
\<close>

datatype phase = Tree | Blooming | Nebula | Collapsing

definition PARTICLE_COUNT :: nat where
  "PARTICLE_COUNT = 20000"

definition PHOTO_COUNT :: nat where
  "PHOTO_COUNT = 24"

text \<open>
  The tweens that \<open>triggerBlooming\<close>, \<open>triggerCollapsing\<close> and \<open>rotateCarousel\<close> hand
  to the GSAP library and that write a field of the state below:
  \<^item> \<open>ParticleBloom\<close>: \<^verbatim>\<open>gsap.to({}, {duration: 2, onUpdate: ...})\<close> of \<open>triggerBlooming\<close>;
  \<^item> \<open>ParticleCollapse\<close>: the same call of \<open>triggerCollapsing\<close>;
  \<^item> \<open>RotationReset p0 o0\<close>:
    \<^verbatim>\<open>gsap.to([particleSystem.rotation, ornamentGroup.rotation], {y: 0, duration: 2, ...})\<close>,
    with the two rotations it starts from;
  \<^item> \<open>CarouselTurn y0 newRotation\<close>:
    \<^verbatim>\<open>gsap.to(photoGroup.rotation, {y: newRotation, duration: 0.8, onUpdate, onComplete})\<close>,
    with the rotation it starts from.
  The tweens of the ornaments, the top star, the photo frames, the camera and the title
  write objects that are not part of the state below and are left out, as are \<open>updateUI\<close>
  and the camera target.
\<close>

datatype tween =
    ParticleBloom
  | ParticleCollapse
  | RotationReset real real
  | CarouselTurn real real

text \<open>
  The state the phase controller reads and writes: the two store fields; the clock in
  milliseconds and the callbacks registered with \<open>setTimeout\<close> (the time each is due and
  the phase it sets); the tweens in flight; the four \<open>Float32Array\<close>s of the particle
  system (\<open>geometry.attributes.position.array\<close>, \<open>userData.originalPositions\<close>,
  \<open>userData.explodedPositions\<close>, \<open>userData.velocities\<close>, three numbers per particle);
  and \<open>rotation.y\<close> of \<open>particleSystem\<close>, \<open>ornamentGroup\<close> and \<open>photoGroup\<close>.
\<close>

record app =
  phase :: phase
  carouselRotation :: real
  clock :: nat
  timeouts :: "(nat \<times> phase) list"
  tweens :: "tween list"
  positions :: "real list"
  originalPositions :: "real list"
  explodedPositions :: "real list"
  velocities :: "real list"
  particleRotationY :: real
  ornamentRotationY :: real
  photoRotationY :: real

text \<open>
  The state after \<open>init()\<close>: \<open>createChristmasTree\<close> allocates the four arrays with
  \<open>PARTICLE_COUNT * 3\<close> entries, fills \<open>positions\<close> and \<open>originalPositions\<close> with the
  same random cone and \<open>velocities\<close> with zeros; the store starts with \<open>phase: 'tree'\<close> and
  \<open>carouselRotation: 0\<close>; a new \<open>THREE.Group\<close> or \<open>THREE.Points\<close> has rotation 0.
\<close>

definition initApp :: "nat \<Rightarrow> real list \<Rightarrow> real list \<Rightarrow> app" where
  "initApp t0 original exploded =
     \<lparr>phase = Tree, carouselRotation = 0, clock = t0, timeouts = [], tweens = [],
      positions = original, originalPositions = original, explodedPositions = exploded,
      velocities = replicate (PARTICLE_COUNT * 3) 0,
      particleRotationY = 0, ornamentRotationY = 0, photoRotationY = 0\<rparr>"

subsection \<open>The particle loops of the two transitions\<close>

text \<open>
  The body of the loop in \<open>onUpdate\<close> of \<open>triggerBlooming\<close>, for particle \<open>i\<close>:
  \<^verbatim>\<open>
  const ox = originalPositions[i * 3]; const oy = ...[i * 3 + 1]; const oz = ...[i * 3 + 2];
  positions[i * 3]     = ox + (exploded[i * 3] - ox) * progress;
  positions[i * 3 + 1] = oy + (exploded[i * 3 + 1] - oy) * progress;
  positions[i * 3 + 2] = oz + (exploded[i * 3 + 2] - oz) * progress;
  \<close>
  A write past the end of a typed array is ignored, as \<open>xs[i := v]\<close> is; a read past the
  end does not happen, since the arrays have \<open>PARTICLE_COUNT * 3\<close> entries each (the
  theorems assume these lengths).
\<close>

definition bloomParticle :: "real list \<Rightarrow> real list \<Rightarrow> real \<Rightarrow> nat \<Rightarrow> real list \<Rightarrow> real list" where
  "bloomParticle original exploded progress i pos =
     (let ox = original ! (i * 3); oy = original ! (i * 3 + 1); oz = original ! (i * 3 + 2)
      in pos[i * 3 := ox + (exploded ! (i * 3) - ox) * progress,
             i * 3 + 1 := oy + (exploded ! (i * 3 + 1) - oy) * progress,
             i * 3 + 2 := oz + (exploded ! (i * 3 + 2) - oz) * progress])"

definition bloomOnUpdate :: "real \<Rightarrow> app \<Rightarrow> app" where
  "bloomOnUpdate progress s =
     s\<lparr>positions := fold (bloomParticle (originalPositions s) (explodedPositions s) progress)
                         [0..<PARTICLE_COUNT] (positions s)\<rparr>"

text \<open>
  The body of the loop in \<open>onUpdate\<close> of \<open>triggerCollapsing\<close>:
  \<^verbatim>\<open>
  positions[i * 3] = exploded[i * 3] + (original[i * 3] - exploded[i * 3]) * progress;
  \<close>
  and the same for \<open>i * 3 + 1\<close> and \<open>i * 3 + 2\<close>.
\<close>

definition collapseParticle :: "real list \<Rightarrow> real list \<Rightarrow> real \<Rightarrow> nat \<Rightarrow> real list \<Rightarrow> real list" where
  "collapseParticle original exploded progress i pos =
     pos[i * 3 := exploded ! (i * 3) + (original ! (i * 3) - exploded ! (i * 3)) * progress,
         i * 3 + 1 := exploded ! (i * 3 + 1) + (original ! (i * 3 + 1) - exploded ! (i * 3 + 1)) * progress,
         i * 3 + 2 := exploded ! (i * 3 + 2) + (original ! (i * 3 + 2) - exploded ! (i * 3 + 2)) * progress]"

definition collapseOnUpdate :: "real \<Rightarrow> app \<Rightarrow> app" where
  "collapseOnUpdate progress s =
     s\<lparr>positions := fold (collapseParticle (originalPositions s) (explodedPositions s) progress)
                         [0..<PARTICLE_COUNT] (positions s)\<rparr>"

subsection \<open>The public triggers\<close>

text \<open>
  \<open>triggerBlooming\<close>: returns at once unless the phase is \<open>'tree'\<close>; otherwise sets the
  phase, starts the particle tween and registers
  \<^verbatim>\<open>setTimeout(() => { store.setState({ phase: 'nebula' }); ... }, 2500)\<close>.
\<close>

definition triggerBlooming :: "app \<Rightarrow> app" where
  "triggerBlooming s =
     (if phase s \<noteq> Tree then s
      else s\<lparr>phase := Blooming,
             tweens := tweens s @ [ParticleBloom],
             timeouts := timeouts s @ [(clock s + 2500, Nebula)]\<rparr>)"

text \<open>
  \<open>triggerCollapsing\<close>: returns at once unless the phase is \<open>'nebula'\<close>; otherwise sets
  the phase, starts the particle tween and the tween that resets the rotation of the
  particle system and of the ornament group, and registers
  \<^verbatim>\<open>setTimeout(() => { store.setState({ phase: 'tree' }); ... }, 2500)\<close>.
\<close>

definition triggerCollapsing :: "app \<Rightarrow> app" where
  "triggerCollapsing s =
     (if phase s \<noteq> Nebula then s
      else s\<lparr>phase := Collapsing,
             tweens := tweens s @ [ParticleCollapse,
                                   RotationReset (particleRotationY s) (ornamentRotationY s)],
             timeouts := timeouts s @ [(clock s + 2500, Tree)]\<rparr>)"

text \<open>
  \<^verbatim>\<open>
  function rotateCarousel(direction) {
      const state = store.getState();
      if (state.phase !== 'nebula') return;
      const newRotation = state.carouselRotation + direction * (Math.PI * 2 / PHOTO_COUNT);
      gsap.to(photoGroup.rotation, { y: newRotation, duration: 0.8, ease: "power2.out",
          onUpdate: function() { store.setState({ carouselRotation: photoGroup.rotation.y }); },
          onComplete: function() { store.setState({ carouselRotation: newRotation }); } });
  }
  \<close>
\<close>

definition rotateCarousel :: "real \<Rightarrow> app \<Rightarrow> app" where
  "rotateCarousel direction s =
     (if phase s \<noteq> Nebula then s
      else (let newRotation = carouselRotation s + direction * (pi * 2 / real PHOTO_COUNT)
            in s\<lparr>tweens := tweens s @ [CarouselTurn (photoRotationY s) newRotation]\<rparr>))"

text \<open>
  The body of the particle loop of \<open>applyRippleEffect\<close>, for particle \<open>i\<close> and the point
  \<open>mousePos\<close> where the pointer's ray meets the plane through the tree:
  \<^verbatim>\<open>
  const ox = original[i * 3]; const oy = original[i * 3 + 1]; const oz = original[i * 3 + 2];
  const currentPos = new THREE.Vector3(ox, oy, oz);
  const force = calculateRippleForce(currentPos, mousePos, 1, 0.015);
  velocities[i * 3] += force.x;                        // and i * 3 + 1, i * 3 + 2
  positions[i * 3] += velocities[i * 3];
  positions[i * 3] += (ox - positions[i * 3]) * 0.05;
  velocities[i * 3] *= 0.95;
  \<close>
  The loop of the ornaments writes objects that are not part of the state.
\<close>

definition rippleParticle ::
  "real list \<Rightarrow> vec3 \<Rightarrow> nat \<Rightarrow> real list \<times> real list \<Rightarrow> real list \<times> real list" where
  "rippleParticle original mousePos i pv =
     (let pos = fst pv; vel = snd pv;
          ox = original ! (i * 3); oy = original ! (i * 3 + 1); oz = original ! (i * 3 + 2);
          currentPos = Vector3 ox oy oz;
          force = calculateRippleForce currentPos mousePos 1 0.015;
          vel1 = vel[i * 3 := vel ! (i * 3) + vx force,
                     i * 3 + 1 := vel ! (i * 3 + 1) + vy force,
                     i * 3 + 2 := vel ! (i * 3 + 2) + vz force];
          pos1 = pos[i * 3 := pos ! (i * 3) + vel1 ! (i * 3),
                     i * 3 + 1 := pos ! (i * 3 + 1) + vel1 ! (i * 3 + 1),
                     i * 3 + 2 := pos ! (i * 3 + 2) + vel1 ! (i * 3 + 2)];
          pos2 = pos1[i * 3 := pos1 ! (i * 3) + (ox - pos1 ! (i * 3)) * 0.05,
                      i * 3 + 1 := pos1 ! (i * 3 + 1) + (oy - pos1 ! (i * 3 + 1)) * 0.05,
                      i * 3 + 2 := pos1 ! (i * 3 + 2) + (oz - pos1 ! (i * 3 + 2)) * 0.05];
          vel2 = vel1[i * 3 := vel1 ! (i * 3) * 0.95,
                      i * 3 + 1 := vel1 ! (i * 3 + 1) * 0.95,
                      i * 3 + 2 := vel1 ! (i * 3 + 2) * 0.95]
      in (pos2, vel2))"

definition applyRippleEffect :: "vec3 \<Rightarrow> app \<Rightarrow> app" where
  "applyRippleEffect mousePos s =
     (let pv = fold (rippleParticle (originalPositions s) mousePos) [0..<PARTICLE_COUNT]
                 (positions s, velocities s)
      in s\<lparr>positions := fst pv, velocities := snd pv\<rparr>)"

text \<open>
  What one frame of \<open>animate\<close> does to the state:
  \<^verbatim>\<open>
  if (state.phase === 'tree') { applyRippleEffect(); }
  ...
  if (state.phase === 'nebula') {
      particleSystem.rotation.y = photoGroup.rotation.y;
      ornamentGroup.rotation.y = photoGroup.rotation.y;
  }
  \<close>
  The rest of \<open>animate\<close> (stars, snow, the top star, the flicker and float of the
  ornaments, rendering) writes objects that are not part of the state.
\<close>

definition animate :: "vec3 \<Rightarrow> app \<Rightarrow> app" where
  "animate mousePos s =
     (let s1 = (if phase s = Tree then applyRippleEffect mousePos s else s)
      in if phase s1 = Nebula
         then s1\<lparr>particleRotationY := photoRotationY s1, ornamentRotationY := photoRotationY s1\<rparr>
         else s1)"

subsection \<open>The collaborators: GSAP tweens and timers\<close>

text \<open>
  GSAP is an external library. What the model takes from its contract: a tween of a
  property moves it from its start value to the target, \<open>start + (target - start) * r\<close>
  at eased ratio \<open>r\<close>; \<open>onUpdate\<close> runs after each render (for the particle tweens
  with \<open>this.progress()\<close> as its only input); the last render is at ratio 1 and is followed
  by \<open>onComplete\<close>, after which the tween is no longer active. GSAP's rounding of the
  values it writes is not modelled.
\<close>

fun renderTween :: "tween \<Rightarrow> real \<Rightarrow> app \<Rightarrow> app" where
  "renderTween ParticleBloom r s = bloomOnUpdate r s"
| "renderTween ParticleCollapse r s = collapseOnUpdate r s"
| "renderTween (RotationReset p0 o0) r s =
     s\<lparr>particleRotationY := p0 + (0 - p0) * r, ornamentRotationY := o0 + (0 - o0) * r\<rparr>"
| "renderTween (CarouselTurn y0 newRotation) r s =
     (let s' = s\<lparr>photoRotationY := y0 + (newRotation - y0) * r\<rparr>
      in s'\<lparr>carouselRotation := photoRotationY s'\<rparr>)"

fun onComplete :: "tween \<Rightarrow> app \<Rightarrow> app" where
  "onComplete (CarouselTurn y0 newRotation) s = s\<lparr>carouselRotation := newRotation\<rparr>"
| "onComplete ParticleBloom s = s"
| "onComplete ParticleCollapse s = s"
| "onComplete (RotationReset p0 o0) s = s"

definition completeTween :: "tween \<Rightarrow> app \<Rightarrow> app" where
  "completeTween tw s =
     (let s' = onComplete tw (renderTween tw 1 s) in s'\<lparr>tweens := remove1 tw (tweens s')\<rparr>)"

text \<open>
  Time passes: the clock advances by \<open>dt\<close> milliseconds and the timer callbacks that are
  due run, oldest first (every delay is 2500, so the order of registration is the order
  of the due times). A callback sets the phase it was registered with.
\<close>

definition fireTimeout :: "nat \<times> phase \<Rightarrow> app \<Rightarrow> app" where
  "fireTimeout t s = s\<lparr>phase := snd t\<rparr>"

definition elapse :: "nat \<Rightarrow> app \<Rightarrow> app" where
  "elapse dt s =
     (let now = clock s + dt;
          due = filter (\<lambda>t. fst t \<le> now) (timeouts s);
          pending = filter (\<lambda>t. \<not> fst t \<le> now) (timeouts s)
      in fold fireTimeout due (s\<lparr>clock := now, timeouts := pending\<rparr>))"

subsection \<open>Executions\<close>

text \<open>
  What can happen to the application: a trigger is invoked (from a key or a gesture), time
  passes, GSAP renders or completes a tween in flight, or \<open>animate\<close> runs (with the
  point the pointer projects to).
\<close>

datatype event =
    TriggerBlooming
  | TriggerCollapsing
  | RotateCarousel real
  | Elapse nat
  | Render tween real
  | Complete tween
  | Animate vec3

fun step :: "event \<Rightarrow> app \<Rightarrow> app" where
  "step TriggerBlooming s = triggerBlooming s"
| "step TriggerCollapsing s = triggerCollapsing s"
| "step (RotateCarousel direction) s = rotateCarousel direction s"
| "step (Elapse dt) s = elapse dt s"
| "step (Render tw r) s = (if tw \<in> set (tweens s) then renderTween tw r s else s)"
| "step (Complete tw) s = (if tw \<in> set (tweens s) then completeTween tw s else s)"
| "step (Animate mousePos) s = animate mousePos s"

definition run :: "event list \<Rightarrow> app \<Rightarrow> app" where
  "run es s = fold step es s"

inductive reachable :: "app \<Rightarrow> bool" where
  reachable_init: "reachable (initApp t0 original exploded)"
| reachable_step: "reachable s \<Longrightarrow> reachable (step e s)"

text \<open>The phases an execution goes through, and the changes of phase among them.\<close>

fun phaseTrace :: "event list \<Rightarrow> app \<Rightarrow> phase list" where
  "phaseTrace [] s = [phase s]"
| "phaseTrace (e # es) s = phase s # phaseTrace es (step e s)"

fun changes :: "phase list \<Rightarrow> (phase \<times> phase) list" where
  "changes (a # b # ps) = (if a = b then changes (b # ps) else (a, b) # changes (b # ps))"
| "changes ps = []"

definition transitions :: "event list \<Rightarrow> app \<Rightarrow> (phase \<times> phase) list" where
  "transitions es s = changes (phaseTrace es s)"


text \<open>The time that passes during a list of events.\<close>

fun elapsed :: "event list \<Rightarrow> nat" where
  "elapsed [] = 0"
| "elapsed (Elapse dt # es) = dt + elapsed es"
| "elapsed (e # es) = elapsed es"

subsection \<open>Scenarios\<close>

text \<open>
  The four particle arrays as \<open>createChristmasTree\<close> allocates them: \<open>PARTICLE_COUNT * 3\<close>
  entries each.
\<close>

definition arraysOk :: "app \<Rightarrow> bool" where
  "arraysOk s =
     (length (positions s) = PARTICLE_COUNT * 3 \<and>
      length (originalPositions s) = PARTICLE_COUNT * 3 \<and>
      length (explodedPositions s) = PARTICLE_COUNT * 3 \<and>
      length (velocities s) = PARTICLE_COUNT * 3)"

text \<open>
  The events of an animation frame: time passes, GSAP renders a tween in flight, or
  \<open>animate\<close> runs. No trigger is invoked and no tween completes.
\<close>

fun frameEvent :: "event \<Rightarrow> bool" where
  "frameEvent (Elapse dt) = True"
| "frameEvent (Render tw r) = True"
| "frameEvent (Animate mousePos) = True"
| "frameEvent TriggerBlooming = False"
| "frameEvent TriggerCollapsing = False"
| "frameEvent (RotateCarousel d) = False"
| "frameEvent (Complete tw) = False"

text \<open>
  A transition run to completion: the trigger; then the frames \<open>es\<close> of the transition,
  which take less than the 2500 ms of the timer; then the tweens of the transition render
  at ratio 1 and complete; then the rest of the 2500 ms passes. (The tweens last 2000 ms,
  so in the browser they complete before the timer is due.)
\<close>

definition bloomingRun :: "event list \<Rightarrow> event list" where
  "bloomingRun es = TriggerBlooming # es @ [Complete ParticleBloom, Elapse (2500 - elapsed es)]"

definition collapsingRun :: "real \<Rightarrow> real \<Rightarrow> event list \<Rightarrow> event list" where
  "collapsingRun p0 o0 es =
     TriggerCollapsing # es @
       [Complete ParticleCollapse, Complete (RotationReset p0 o0), Elapse (2500 - elapsed es)]"

text \<open>
  One call of \<open>rotateCarousel\<close> in state \<open>s\<close> whose tween is allowed to complete after the
  frames \<open>es\<close>, and a sequence of such calls, one per list of frames.
\<close>

definition carouselRun :: "real \<Rightarrow> event list \<Rightarrow> app \<Rightarrow> event list" where
  "carouselRun direction es s =
     RotateCarousel direction # es @
       [Complete (CarouselTurn (photoRotationY s)
          (carouselRotation s + direction * (pi * 2 / real PHOTO_COUNT)))]"

fun rotateTimes :: "real \<Rightarrow> event list list \<Rightarrow> app \<Rightarrow> app" where
  "rotateTimes direction [] s = s"
| "rotateTimes direction (es # ess) s = rotateTimes direction ess (run (carouselRun direction es s) s)"


text \<open>
  A concrete application: every particle rests at the origin \<open>(0, 0, 0)\<close> and explodes
  to \<open>(1, 1, 1)\<close>; then the same application in Nebula after a blooming; after one
  carousel step and a frame; and after the collapse that follows.
\<close>

definition exampleApp :: app where
  "exampleApp = initApp 0 (replicate (PARTICLE_COUNT * 3) 0) (replicate (PARTICLE_COUNT * 3) 1)"

definition nebulaExample :: app where
  "nebulaExample = run (bloomingRun []) exampleApp"



text \<open>
  The invariant behind the phase machine: a timer is pending exactly while the phase is
  \<open>Blooming\<close> or \<open>Collapsing\<close>; there is one, it sets the next phase of the cycle,
  and it is due within 2500 ms.
\<close>

definition timersOk :: "app \<Rightarrow> bool" where
  "timersOk s =
     (if phase s = Blooming \<or> phase s = Collapsing
      then timeouts s = [(fst (hd (timeouts s)), if phase s = Blooming then Nebula else Tree)] \<and>
           clock s < fst (hd (timeouts s)) \<and> fst (hd (timeouts s)) \<le> clock s + 2500
      else timeouts s = [])"

section \<open>Gesture classifier (utils/handGesture.js)\<close>

text \<open>
  A landmark is the array \<open>[x, y, z]\<close> of the hand-pose model, in image coordinates (the
  vertical axis grows downwards); \<open>landmark[0]\<close> and \<open>landmark[1]\<close> are read by \<open>lmX\<close> and
  \<open>lmY\<close>. A prediction carries the 21 landmarks of one hand in \<open>hand.landmarks\<close>.
\<close>

datatype landmark = Landmark (lmX: real) (lmY: real) (lmZ: real)

record hand =
  landmarks :: "landmark list"

text \<open>The indices of \<open>HAND_LANDMARKS\<close>.\<close>

definition WRIST :: nat where "WRIST = 0"
definition THUMB_CMC :: nat where "THUMB_CMC = 1"
definition THUMB_MCP :: nat where "THUMB_MCP = 2"
definition THUMB_IP :: nat where "THUMB_IP = 3"
definition THUMB_TIP :: nat where "THUMB_TIP = 4"
definition INDEX_FINGER_MCP :: nat where "INDEX_FINGER_MCP = 5"
definition INDEX_FINGER_PIP :: nat where "INDEX_FINGER_PIP = 6"
definition INDEX_FINGER_DIP :: nat where "INDEX_FINGER_DIP = 7"
definition INDEX_FINGER_TIP :: nat where "INDEX_FINGER_TIP = 8"
definition MIDDLE_FINGER_MCP :: nat where "MIDDLE_FINGER_MCP = 9"
definition MIDDLE_FINGER_PIP :: nat where "MIDDLE_FINGER_PIP = 10"
definition MIDDLE_FINGER_DIP :: nat where "MIDDLE_FINGER_DIP = 11"
definition MIDDLE_FINGER_TIP :: nat where "MIDDLE_FINGER_TIP = 12"
definition RING_FINGER_MCP :: nat where "RING_FINGER_MCP = 13"
definition RING_FINGER_PIP :: nat where "RING_FINGER_PIP = 14"
definition RING_FINGER_DIP :: nat where "RING_FINGER_DIP = 15"
definition RING_FINGER_TIP :: nat where "RING_FINGER_TIP = 16"
definition PINKY_MCP :: nat where "PINKY_MCP = 17"
definition PINKY_PIP :: nat where "PINKY_PIP = 18"
definition PINKY_DIP :: nat where "PINKY_DIP = 19"
definition PINKY_TIP :: nat where "PINKY_TIP = 20"

definition GESTURE_DETECTION_INTERVAL :: int where
  "GESTURE_DETECTION_INTERVAL = 100"

definition swipeThreshold :: real where
  "swipeThreshold = 50"

definition palmSwipeTimeout :: int where
  "palmSwipeTimeout = 300"

text \<open>
  The events the module dispatches on \<open>document\<close>: \<open>CustomEvent('gesture', ...)\<close> with
  \<open>detail.gesture\<close> and \<open>CustomEvent('swipe', ...)\<close> with \<open>detail.direction\<close>. The
  \<open>timestamp\<close> of the detail, a fresh reading of the clock, is left out, and so are the
  status text that \<open>updateGestureInfo\<close> writes to the page and the drawing of the hand.
\<close>

datatype customEvent = GestureEvent string | SwipeEvent string

text \<open>
  The module's variables: \<open>isDetecting\<close>; whether \<open>handposeModel\<close> is loaded (not
  \<open>null\<close>); \<open>lastGestureTime\<close>, \<open>currentGesture\<close>, \<open>previousGesture\<close>;
  \<open>lastPalmPosition\<close> (\<open>null\<close> or \<open>{x, y}\<close>) and \<open>lastSwipeTime\<close>; and the events
  dispatched so far, oldest first. Times are the milliseconds of \<open>Date.now()\<close>.
\<close>

record gestureState =
  isDetecting :: bool
  handposeModel :: bool
  lastGestureTime :: int
  currentGesture :: string
  previousGesture :: string
  lastPalmPosition :: "(real \<times> real) option"
  lastSwipeTime :: int
  dispatched :: "customEvent list"

text \<open>The variables as the module initialises them, with the model loaded by \<open>startCamera\<close>.\<close>

definition cameraStarted :: gestureState where
  "cameraStarted =
     \<lparr>isDetecting = True, handposeModel = True, lastGestureTime = 0,
      currentGesture = ''none'', previousGesture = ''none'',
      lastPalmPosition = None, lastSwipeTime = 0, dispatched = []\<rparr>"

text \<open>
  \<^verbatim>\<open>
  function isFingerOpen(landmarks, fingerIndices) {
      const [mcp, pip, dip, tip] = fingerIndices;
      const mcpY = landmarks[mcp][1];
      const tipY = landmarks[tip][1];
      if (fingerIndices[0] === HAND_LANDMARKS.THUMB_CMC) {
          const mcpX = landmarks[mcp][0];
          const tipX = landmarks[tip][0];
          return tipX > mcpX;
      }
      return tipY < mcpY;
  }
  \<close>
  Reading a landmark that is not there throws a \<open>TypeError\<close>: the result \<open>None\<close>.
\<close>

fun isFingerOpen :: "landmark list \<Rightarrow> nat list \<Rightarrow> bool option" where
  "isFingerOpen lms (mcp # pip # dip # tip # rest) =
     (if mcp < length lms \<and> tip < length lms
      then (let mcpY = lmY (lms ! mcp); tipY = lmY (lms ! tip)
            in if mcp = THUMB_CMC
               then (let mcpX = lmX (lms ! mcp); tipX = lmX (lms ! tip) in Some (tipX > mcpX))
               else Some (tipY < mcpY))
      else None)"
| "isFingerOpen lms fingerIndices = None"

definition triggerSwipeEvent :: "string \<Rightarrow> gestureState \<Rightarrow> gestureState" where
  "triggerSwipeEvent direction s = s\<lparr>dispatched := dispatched s @ [SwipeEvent direction]\<rparr>"

definition triggerGestureEvent :: "string \<Rightarrow> gestureState \<Rightarrow> gestureState" where
  "triggerGestureEvent gesture s = s\<lparr>dispatched := dispatched s @ [GestureEvent gesture]\<rparr>"

text \<open>
  \<open>detectPalmSwipe(landmarks, now)\<close>: the palm centre is the mean of the six palm
  landmarks (summed by \<open>forEach\<close>, then divided by their number); with a recorded position
  and more than \<open>palmSwipeTimeout\<close> since the last swipe, a horizontal move of more than
  \<open>swipeThreshold\<close> dispatches a swipe, records its time and forgets the position;
  otherwise the current position is recorded.
\<close>

definition palmLandmarks :: "nat list" where
  "palmLandmarks =
     [WRIST, THUMB_CMC, INDEX_FINGER_MCP, MIDDLE_FINGER_MCP, RING_FINGER_MCP, PINKY_MCP]"

definition detectPalmSwipe :: "landmark list \<Rightarrow> int \<Rightarrow> gestureState \<Rightarrow> gestureState option" where
  "detectPalmSwipe lms now s =
     (if \<not> list_all (\<lambda>idx. idx < length lms) palmLandmarks then None
      else
        (let palmX = fold (\<lambda>idx acc. acc + lmX (lms ! idx)) palmLandmarks 0
                       / real (length palmLandmarks);
             palmY = fold (\<lambda>idx acc. acc + lmY (lms ! idx)) palmLandmarks 0
                       / real (length palmLandmarks);
             currentPalmPosition = (palmX, palmY)
         in case lastPalmPosition s of
              Some lastPos \<Rightarrow>
                (if now - lastSwipeTime s > palmSwipeTimeout
                 then (let deltaX = fst currentPalmPosition - fst lastPos
                       in if \<bar>deltaX\<bar> > swipeThreshold
                          then (let swipeDirection = (if deltaX > 0 then ''right'' else ''left'')
                                in Some ((triggerSwipeEvent swipeDirection s)
                                           \<lparr>lastSwipeTime := now, lastPalmPosition := None\<rparr>))
                          else Some (s\<lparr>lastPalmPosition := Some currentPalmPosition\<rparr>))
                 else Some (s\<lparr>lastPalmPosition := Some currentPalmPosition\<rparr>))
            | None \<Rightarrow> Some (s\<lparr>lastPalmPosition := Some currentPalmPosition\<rparr>)))"

text \<open>
  \<open>detectGesture(hand)\<close> with \<open>now = Date.now()\<close>: nothing happens within
  \<open>GESTURE_DETECTION_INTERVAL\<close> of \<open>lastGestureTime\<close>; otherwise the five fingers are
  tested, the chain of \<open>if\<close>s picks the gesture (calling \<open>detectPalmSwipe\<close> for the open
  palm and forgetting the palm position in every other branch), and then
  \<^verbatim>\<open>
  currentGesture = gesture;
  if (currentGesture !== previousGesture) {
      triggerGestureEvent(currentGesture);
      previousGesture = currentGesture;
      lastGestureTime = now;
  }
  \<close>
  \<open>None\<close> is the \<open>TypeError\<close> of a missing landmark, thrown before any variable is
  written.
\<close>

definition detectGesture :: "hand \<Rightarrow> int \<Rightarrow> gestureState \<Rightarrow> gestureState option" where
  "detectGesture hand now s =
     (let lms = landmarks hand
      in if now - lastGestureTime s < GESTURE_DETECTION_INTERVAL then Some s
         else
           case (isFingerOpen lms [THUMB_CMC, THUMB_MCP, THUMB_IP, THUMB_TIP],
                 isFingerOpen lms [INDEX_FINGER_MCP, INDEX_FINGER_PIP, INDEX_FINGER_DIP, INDEX_FINGER_TIP],
                 isFingerOpen lms [MIDDLE_FINGER_MCP, MIDDLE_FINGER_PIP, MIDDLE_FINGER_DIP, MIDDLE_FINGER_TIP],
                 isFingerOpen lms [RING_FINGER_MCP, RING_FINGER_PIP, RING_FINGER_DIP, RING_FINGER_TIP],
                 isFingerOpen lms [PINKY_MCP, PINKY_PIP, PINKY_DIP, PINKY_TIP]) of
             (Some thumb, Some index, Some middle, Some ring, Some pinky) \<Rightarrow>
               (case (if \<not> thumb \<and> \<not> index \<and> \<not> middle \<and> \<not> ring \<and> \<not> pinky
                      then Some (''fist'', s\<lparr>lastPalmPosition := None\<rparr>)
                      else if thumb \<and> index \<and> middle \<and> ring \<and> pinky
                      then (case detectPalmSwipe lms now s of
                              Some s1 \<Rightarrow> Some (''open_palm'', s1)
                            | None \<Rightarrow> None)
                      else if thumb \<and> \<not> index \<and> \<not> middle \<and> \<not> ring \<and> \<not> pinky
                      then Some (''thumbs_up'', s\<lparr>lastPalmPosition := None\<rparr>)
                      else if \<not> thumb \<and> index \<and> middle \<and> \<not> ring \<and> \<not> pinky
                      then Some (''victory'', s\<lparr>lastPalmPosition := None\<rparr>)
                      else if \<not> thumb \<and> index \<and> \<not> middle \<and> \<not> ring \<and> \<not> pinky
                      then Some (''point'', s\<lparr>lastPalmPosition := None\<rparr>)
                      else Some (''none'', s\<lparr>lastPalmPosition := None\<rparr>)) of
                  Some (gesture, s1) \<Rightarrow>
                    (let s2 = s1\<lparr>currentGesture := gesture\<rparr>
                     in if currentGesture s2 \<noteq> previousGesture s2
                        then Some ((triggerGestureEvent (currentGesture s2) s2)
                                     \<lparr>previousGesture := currentGesture s2, lastGestureTime := now\<rparr>)
                        else Some s2)
                | None \<Rightarrow> None)
           | _ \<Rightarrow> None)"

text \<open>
  One pass of \<open>detectHands\<close>, with the predictions of \<open>estimateHands\<close> and the clock as
  inputs: the pass does nothing while detection is paused or the model is not loaded; with
  a prediction it classifies the first hand; with none it sets \<open>currentGesture\<close> to
  \<open>'none'\<close>. An exception is caught and logged, and leaves the variables as they were.
\<close>

definition detectHands :: "hand list \<Rightarrow> int \<Rightarrow> gestureState \<Rightarrow> gestureState" where
  "detectHands predictions now s =
     (if \<not> isDetecting s \<or> \<not> handposeModel s then s
      else case predictions of
             hand # others \<Rightarrow> (case detectGesture hand now s of Some s' \<Rightarrow> s' | None \<Rightarrow> s)
           | [] \<Rightarrow> s\<lparr>currentGesture := ''none''\<rparr>)"

subsection \<open>Vocabulary of the specification and synthetic hands\<close>

text \<open>
  The specification's words: a finger other than the thumb is open when its tip is above
  its base joint (a smaller \<open>y\<close>; the base is the finger's MCP landmark), the thumb when
  its tip is beyond its base on the horizontal axis (a greater \<open>x\<close>; the base is the
  thumb's CMC landmark); the table from the five flags to the label; the centroid of the
  six palm-base landmarks; and the swipe and gesture events among the dispatched ones.
\<close>

definition tipAboveBase :: "landmark list \<Rightarrow> nat \<Rightarrow> nat \<Rightarrow> bool" where
  "tipAboveBase lms tip base = (lmY (lms ! tip) < lmY (lms ! base))"

definition tipBeyondBase :: "landmark list \<Rightarrow> nat \<Rightarrow> nat \<Rightarrow> bool" where
  "tipBeyondBase lms tip base = (lmX (lms ! tip) > lmX (lms ! base))"

definition gestureTable :: "bool \<Rightarrow> bool \<Rightarrow> bool \<Rightarrow> bool \<Rightarrow> bool \<Rightarrow> string" where
  "gestureTable thumb index middle ring pinky =
     (if (thumb, index, middle, ring, pinky) = (False, False, False, False, False) then ''fist''
      else if (thumb, index, middle, ring, pinky) = (True, True, True, True, True) then ''open_palm''
      else if (thumb, index, middle, ring, pinky) = (True, False, False, False, False) then ''thumbs_up''
      else if (thumb, index, middle, ring, pinky) = (False, True, True, False, False) then ''victory''
      else if (thumb, index, middle, ring, pinky) = (False, True, False, False, False) then ''point''
      else ''none'')"

definition classify :: "landmark list \<Rightarrow> string" where
  "classify lms =
     gestureTable (tipBeyondBase lms THUMB_TIP THUMB_CMC)
                  (tipAboveBase lms INDEX_FINGER_TIP INDEX_FINGER_MCP)
                  (tipAboveBase lms MIDDLE_FINGER_TIP MIDDLE_FINGER_MCP)
                  (tipAboveBase lms RING_FINGER_TIP RING_FINGER_MCP)
                  (tipAboveBase lms PINKY_TIP PINKY_MCP)"

definition palmCentroid :: "landmark list \<Rightarrow> real \<times> real" where
  "palmCentroid lms =
     ((lmX (lms ! WRIST) + lmX (lms ! THUMB_CMC) + lmX (lms ! INDEX_FINGER_MCP) +
       lmX (lms ! MIDDLE_FINGER_MCP) + lmX (lms ! RING_FINGER_MCP) + lmX (lms ! PINKY_MCP)) / 6,
      (lmY (lms ! WRIST) + lmY (lms ! THUMB_CMC) + lmY (lms ! INDEX_FINGER_MCP) +
       lmY (lms ! MIDDLE_FINGER_MCP) + lmY (lms ! RING_FINGER_MCP) + lmY (lms ! PINKY_MCP)) / 6)"

fun swipes :: "customEvent list \<Rightarrow> string list" where
  "swipes [] = []"
| "swipes (SwipeEvent direction # evs) = direction # swipes evs"
| "swipes (GestureEvent gesture # evs) = swipes evs"

fun gestures :: "customEvent list \<Rightarrow> string list" where
  "gestures [] = []"
| "gestures (GestureEvent gesture # evs) = gesture # gestures evs"
| "gestures (SwipeEvent direction # evs) = gestures evs"

text \<open>
  Synthetic landmark samples: a hand whose palm-base landmarks all lie at \<open>(cx, 300)\<close>,
  each finger tip above its base when the finger is open and below it when closed, the thumb
  tip to the right of its base when open and to the left when closed.
\<close>

definition syntheticFinger :: "real \<Rightarrow> bool \<Rightarrow> landmark list" where
  "syntheticFinger cx opened =
     [Landmark cx 300 0, Landmark cx 300 0, Landmark cx 300 0,
      Landmark cx (if opened then 200 else 350) 0]"

definition syntheticHand :: "real \<Rightarrow> bool \<Rightarrow> bool \<Rightarrow> bool \<Rightarrow> bool \<Rightarrow> bool \<Rightarrow> hand" where
  "syntheticHand cx thumb index middle ring pinky =
     \<lparr>landmarks =
        [Landmark cx 300 0,
         Landmark cx 300 0, Landmark cx 300 0, Landmark cx 300 0,
         Landmark (if thumb then cx + 40 else cx - 40) 300 0]
        @ syntheticFinger cx index @ syntheticFinger cx middle
        @ syntheticFinger cx ring @ syntheticFinger cx pinky\<rparr>"

definition openPalmAt :: "real \<Rightarrow> hand" where
  "openPalmAt cx = syntheticHand cx True True True True True"

definition fistAt :: "real \<Rightarrow> hand" where
  "fistAt cx = syntheticHand cx False False False False False"

text \<open>
  A pass over a hand of 21 landmarks, outside the interval: the branch of the chain (the
  palm-swipe step for the open palm, forgetting the palm position otherwise), then the
  common end of \<open>detectGesture\<close>.
\<close>

definition afterBranch :: "landmark list \<Rightarrow> int \<Rightarrow> gestureState \<Rightarrow> gestureState" where
  "afterBranch lms now s =
     (if classify lms = ''open_palm'' then the (detectPalmSwipe lms now s)
      else s\<lparr>lastPalmPosition := None\<rparr>)"

text \<open>
  The classifier after its first pass at time 1000 has seen an open palm, or a fist, at
  \<open>x = 100\<close>.
\<close>

definition palmSeen :: gestureState where
  "palmSeen = detectHands [openPalmAt 100] 1000 cameraStarted"

definition fistSeen :: gestureState where
  "fistSeen = detectHands [fistAt 100] 1000 cameraStarted"

section \<open>Properties of the force field\<close>

lemma distance_unfold:
  "distance p c = sqrt ((vx p - vx c) * (vx p - vx c) + (vy p - vy c) * (vy p - vy c)
     + (vz p - vz c) * (vz p - vz c))"
  by (simp add: distance_def vnorm_def vdot_def vsub_def)

lemma distance_nonneg: "0 \<le> distance p c"
  by (simp add: distance_def vnorm_def vdot_def)


lemma ripple_near:
  "distance p c < maxDistance \<Longrightarrow>
   calculateRippleForce p c maxDistance s = vscale ((maxDistance - distance p c) * s) (vsub p c)"
  by (simp add: calculateRippleForce_def Let_def distance_unfold vscale_def vsub_def mult.commute)


lemma vdot_self_nonneg: "0 \<le> vdot v v"
  by (simp add: vdot_def)




lemma vnorm_zero: "vnorm (Vector3 0 0 0) = 0"
  by (simp add: vnorm_def vdot_def)

lemma vnorm_nonneg: "0 \<le> vnorm v"
  by (simp add: vnorm_def vdot_self_nonneg)





lemma ripple_magnitude:
  assumes "distance p c < maxDistance"
  shows "vnorm (calculateRippleForce p c maxDistance s) =
         \<bar>(maxDistance - distance p c) * s\<bar> * distance p c"
proof -
  have "vdot (vscale k v) (vscale k v) = k * k * vdot v v" for k v
    by (simp add: vdot_def vscale_def algebra_simps)
  then have "vnorm (vscale k v) = \<bar>k\<bar> * vnorm v" for k v
    by (simp add: vnorm_def real_sqrt_mult)
  then show ?thesis
    using assms by (simp add: ripple_near distance_def)
qed

lemma ripple_force_zero_offset:
  "calculateRippleForce c c maxDistance s = Vector3 0 0 0 \<and>
   vnorm (calculateRippleForce c c maxDistance s) \<le> vnorm (calculateRippleForce p c maxDistance s)"
proof -
  have z: "calculateRippleForce c c maxDistance s = Vector3 0 0 0"
    by (simp add: calculateRippleForce_def)
  show ?thesis
    by (simp add: z vnorm_zero vnorm_nonneg)
qed

subsection \<open>The force at the interaction point, with special values\<close>

lemma overflowThreshold_gt_one: "1 < overflowThreshold"
proof -
  have "(2::real) ^ 970 * 2 \<le> 2 ^ 970 * 2 ^ 54" by simp
  then have "(2::real) ^ 970 * 2 \<le> 2 ^ 1024" by (simp flip: power_add)
  moreover have "(1::real) < 2 ^ 970" by simp
  ultimately show ?thesis unfolding overflowThreshold_def by linarith
qed



lemma rounded_inRange: "\<bar>x\<bar> < overflowThreshold \<Longrightarrow> rounded x = Num x"
  by (auto simp add: rounded_def)

lemma rounded_zero [simp]: "rounded 0 = Num 0"
  using overflowThreshold_gt_one by (simp add: rounded_inRange)




lemma nsub_self: "nsub (Num x) (Num x) = Num 0"
  by (simp add: nsub_def)


lemma nmul_zero_zero [simp]: "nmul (Num 0) (Num 0) = Num 0"
  by (simp add: nmul_def)

lemma nmul_zero: "nmul (Num 0) a = (if isFinite a then Num 0 else NaN)"
  by (cases a) (simp_all add: nmul_def)





text \<open>
  Where no intermediate result overflows, the model with special values computes what
  the model on real numbers computes.
\<close>

lemma calculateRippleForceNum_refines:
  assumes "noOverflow p c m s"
  shows "calculateRippleForceNum (finiteVector p) (finiteVector c) (Num m) (Num s) =
         finiteVector (calculateRippleForce p c m s)"
proof -
  have nn: "\<not> a * a + b * b + d * d < 0" for a b d :: real
    by (simp add: not_less)
  show ?thesis
    using assms
    by (auto simp add: noOverflow_def calculateRippleForceNum_def calculateRippleForce_def
          finiteVector_def Let_def inRange_def nsub_def nmul_def nless_def rounded_inRange nn)
qed

text \<open>
  With the point at the interaction point the offset is \<open>(0, 0, 0)\<close> and the distance 0,
  computed without rounding. The branch is taken when \<open>0 < maxDistance\<close>, and its result
  \<open>0 * force\<close> is 0 for a finite \<open>force\<close> and \<open>NaN\<close> for any other.
\<close>

lemma force_at_point:
  "calculateRippleForceNum (finiteVector q) (finiteVector q) maxDistance k =
     (if nless (Num 0) maxDistance
      then (if isFinite (nmul (nsub maxDistance (Num 0)) k)
            then Vector3 (Num 0) (Num 0) (Num 0) else Vector3 NaN NaN NaN)
      else Vector3 (Num 0) (Num 0) (Num 0))"
  by (simp add: calculateRippleForceNum_def finiteVector_def nsub_self nmul_zero Let_def)

text \<open>
  A point with a coordinate that is not finite has no distance to itself (the offset
  has a \<open>NaN\<close>, the comparison fails), and the result is the zero vector. So a call with
  both points equal returns the zero vector or three \<open>NaN\<close>, nothing else.
\<close>

lemma force_at_any_point:
  "calculateRippleForceNum c c maxDistance k = Vector3 (Num 0) (Num 0) (Num 0) \<or>
   calculateRippleForceNum c c maxDistance k = Vector3 NaN NaN NaN"
proof (cases "\<exists>q. c = finiteVector q")
  case True
  then show ?thesis by (auto simp add: force_at_point)
next
  case False
  have nan: "nmul NaN NaN = NaN" "nadd NaN a = NaN" "nadd a NaN = NaN" for a
    by (cases a; simp add: nmul_def)+
  obtain x y z where c: "c = Vector3 x y z" by (cases c)
  from False c have "\<not> (isFinite x \<and> isFinite y \<and> isFinite z)"
    by (cases x; cases y; cases z) (auto simp add: finiteVector_def dest: spec [of _ "Vector3 _ _ _"])
  then have "nsub x x = NaN \<or> nsub y y = NaN \<or> nsub z z = NaN"
    by (cases x; cases y; cases z) (simp_all add: nsub_def)
  then have "nsqrt (nadd (nadd (nmul (nsub x x) (nsub x x)) (nmul (nsub y y) (nsub y y)))
               (nmul (nsub z z) (nsub z z))) = NaN"
    by (auto simp add: nan)
  then show ?thesis
    by (simp add: calculateRippleForceNum_def c Let_def nless_def)
qed




section \<open>Properties of the phase controller\<close>

lemma rippleParticle_length [simp]:
  "length (fst (rippleParticle original mousePos i pv)) = length (fst pv)"
  "length (snd (rippleParticle original mousePos i pv)) = length (snd pv)"
  by (simp_all add: rippleParticle_def Let_def)

lemma ripple_fold_length [simp]:
  "length (fst (fold (rippleParticle original mousePos) [0..<m] pv)) = length (fst pv)"
  "length (snd (fold (rippleParticle original mousePos) [0..<m] pv)) = length (snd pv)"
  by (induction m; simp)+

lemma applyRippleEffect_frame [simp]:
  "phase (applyRippleEffect mousePos s) = phase s"
  "timeouts (applyRippleEffect mousePos s) = timeouts s"
  "clock (applyRippleEffect mousePos s) = clock s"
  "tweens (applyRippleEffect mousePos s) = tweens s"
  "originalPositions (applyRippleEffect mousePos s) = originalPositions s"
  "explodedPositions (applyRippleEffect mousePos s) = explodedPositions s"
  "length (positions (applyRippleEffect mousePos s)) = length (positions s)"
  "length (velocities (applyRippleEffect mousePos s)) = length (velocities s)"
  "particleRotationY (applyRippleEffect mousePos s) = particleRotationY s"
  "ornamentRotationY (applyRippleEffect mousePos s) = ornamentRotationY s"
  "photoRotationY (applyRippleEffect mousePos s) = photoRotationY s"
  "carouselRotation (applyRippleEffect mousePos s) = carouselRotation s"
  by (simp_all add: applyRippleEffect_def Let_def)

lemma animate_frame [simp]:
  "phase (animate mousePos s) = phase s"
  "timeouts (animate mousePos s) = timeouts s"
  "clock (animate mousePos s) = clock s"
  "tweens (animate mousePos s) = tweens s"
  "originalPositions (animate mousePos s) = originalPositions s"
  "explodedPositions (animate mousePos s) = explodedPositions s"
  "length (positions (animate mousePos s)) = length (positions s)"
  "length (velocities (animate mousePos s)) = length (velocities s)"
  "photoRotationY (animate mousePos s) = photoRotationY s"
  "carouselRotation (animate mousePos s) = carouselRotation s"
  by (simp_all add: animate_def Let_def)


lemma renderTween_frame [simp]:
  "phase (renderTween tw r s) = phase s"
  "timeouts (renderTween tw r s) = timeouts s"
  "clock (renderTween tw r s) = clock s"
  "tweens (renderTween tw r s) = tweens s"
  by (cases tw; simp add: bloomOnUpdate_def collapseOnUpdate_def Let_def)+

lemma onComplete_frame [simp]:
  "phase (onComplete tw s) = phase s"
  "timeouts (onComplete tw s) = timeouts s"
  "clock (onComplete tw s) = clock s"
  "tweens (onComplete tw s) = tweens s"
  by (cases tw; simp)+

lemma completeTween_frame [simp]:
  "phase (completeTween tw s) = phase s"
  "timeouts (completeTween tw s) = timeouts s"
  "clock (completeTween tw s) = clock s"
  by (simp_all add: completeTween_def Let_def)

lemma timersOk_cases:
  "timersOk s \<Longrightarrow>
     (phase s = Tree \<and> timeouts s = []) \<or>
     (phase s = Nebula \<and> timeouts s = []) \<or>
     (\<exists>d. phase s = Blooming \<and> timeouts s = [(d, Nebula)] \<and> clock s < d \<and> d \<le> clock s + 2500) \<or>
     (\<exists>d. phase s = Collapsing \<and> timeouts s = [(d, Tree)] \<and> clock s < d \<and> d \<le> clock s + 2500)"
  by (cases "phase s") (auto simp: timersOk_def split: if_splits)

lemma timersOk_init: "timersOk (initApp t0 original exploded)"
  by (simp add: timersOk_def initApp_def)

lemma timersOk_triggerBlooming: "timersOk s \<Longrightarrow> timersOk (triggerBlooming s)"
  by (auto simp: timersOk_def triggerBlooming_def)

lemma timersOk_triggerCollapsing: "timersOk s \<Longrightarrow> timersOk (triggerCollapsing s)"
  by (auto simp: timersOk_def triggerCollapsing_def)

lemma timersOk_rotateCarousel: "timersOk s \<Longrightarrow> timersOk (rotateCarousel d s)"
  by (auto simp: timersOk_def rotateCarousel_def Let_def)

lemma elapse_idle:
  "timeouts s = [] \<Longrightarrow>
   phase (elapse dt s) = phase s \<and> timeouts (elapse dt s) = [] \<and> clock (elapse dt s) = clock s + dt"
  by (simp add: elapse_def Let_def)

lemma elapse_pending:
  "timeouts s = [(d, p)] \<Longrightarrow> \<not> d \<le> clock s + dt \<Longrightarrow>
   phase (elapse dt s) = phase s \<and> timeouts (elapse dt s) = [(d, p)] \<and>
   clock (elapse dt s) = clock s + dt"
  by (simp add: elapse_def Let_def)

lemma elapse_due:
  "timeouts s = [(d, p)] \<Longrightarrow> d \<le> clock s + dt \<Longrightarrow>
   phase (elapse dt s) = p \<and> timeouts (elapse dt s) = [] \<and> clock (elapse dt s) = clock s + dt"
  by (simp add: elapse_def Let_def fireTimeout_def)

lemma timersOk_elapse:
  assumes "timersOk s"
  shows "timersOk (elapse dt s)"
proof -
  from timersOk_cases [OF assms] consider
      (idle) "phase s = Tree \<or> phase s = Nebula" "timeouts s = []"
    | (busy) d p where "timeouts s = [(d, p)]" "clock s < d" "d \<le> clock s + 2500"
        "phase s = Blooming \<and> p = Nebula \<or> phase s = Collapsing \<and> p = Tree"
    by blast
  then show ?thesis
  proof cases
    case idle
    then show ?thesis using elapse_idle [of s dt] by (auto simp: timersOk_def)
  next
    case busy
    show ?thesis
    proof (cases "d \<le> clock s + dt")
      case True
      then show ?thesis using busy elapse_due [of s d p dt] by (auto simp: timersOk_def)
    next
      case False
      then show ?thesis using busy elapse_pending [of s d p dt] by (auto simp: timersOk_def)
    qed
  qed
qed

lemma timersOk_frame:
  "phase s' = phase s \<Longrightarrow> timeouts s' = timeouts s \<Longrightarrow> clock s' = clock s \<Longrightarrow>
   timersOk s \<Longrightarrow> timersOk s'"
  by (simp add: timersOk_def)

lemma timersOk_step: "timersOk s \<Longrightarrow> timersOk (step e s)"
proof (cases e)
  case (Render tw r)
  assume "timersOk s"
  then show ?thesis using Render by (auto intro: timersOk_frame [of _ s])
next
  case (Complete tw)
  assume "timersOk s"
  then show ?thesis using Complete by (auto intro: timersOk_frame [of _ s])
next
  case (Animate mousePos)
  assume "timersOk s"
  then show ?thesis using Animate by (auto intro: timersOk_frame [of _ s])
qed (simp_all add: timersOk_triggerBlooming timersOk_triggerCollapsing timersOk_rotateCarousel timersOk_elapse)

lemma reachable_timersOk: "reachable s \<Longrightarrow> timersOk s"
  by (induction rule: reachable.induct) (simp_all add: timersOk_init timersOk_step)



lemma phaseTrace_hd: "\<exists>ps. phaseTrace es s = phase s # ps"
  by (cases es) simp_all

lemma transitions_Nil [simp]: "transitions [] s = []"
  by (simp add: transitions_def)

lemma transitions_Cons:
  "transitions (e # es) s =
     (if phase s = phase (step e s) then [] else [(phase s, phase (step e s))])
     @ transitions es (step e s)"
proof -
  obtain ps where "phaseTrace es (step e s) = phase (step e s) # ps"
    using phaseTrace_hd by blast
  then show ?thesis by (simp add: transitions_def)
qed

lemma run_Cons [simp]: "run (e # es) s = run es (step e s)"
  by (simp add: run_def)

lemma run_Nil [simp]: "run [] s = s"
  by (simp add: run_def)



text \<open>While a timer is pending and not yet due, nothing changes the phase.\<close>

lemma step_transient:
  assumes "phase s = Blooming \<or> phase s = Collapsing" "timeouts s = [(d, p)]"
    and "clock s + elapsed [e] < d"
  shows "phase (step e s) = phase s \<and> timeouts (step e s) = [(d, p)] \<and>
         clock (step e s) = clock s + elapsed [e]"
  using assms
  by (cases e)
     (auto simp: triggerBlooming_def triggerCollapsing_def rotateCarousel_def
        elapse_def Let_def)

lemma elapsed_Cons: "elapsed (e # es) = elapsed [e] + elapsed es"
  by (cases e) simp_all

lemma run_transient:
  assumes "phase s = Blooming \<or> phase s = Collapsing" "timeouts s = [(d, p)]"
    and "clock s + elapsed es < d"
  shows "transitions es s = [] \<and> phase (run es s) = phase s \<and>
         timeouts (run es s) = [(d, p)] \<and> clock (run es s) = clock s + elapsed es"
  using assms
proof (induction es arbitrary: s)
  case Nil
  then show ?case by simp
next
  case (Cons e es)
  have lt: "clock s + elapsed [e] < d"
    using Cons.prems(3) elapsed_Cons [of e es] by simp
  note st = step_transient [OF Cons.prems(1,2) lt]
  have "clock (step e s) + elapsed es < d"
    using st Cons.prems(3) elapsed_Cons [of e es] by simp
  moreover have "phase (step e s) = Blooming \<or> phase (step e s) = Collapsing"
    using st Cons.prems(1) by simp
  ultimately have ih: "transitions es (step e s) = [] \<and> phase (run es (step e s)) = phase (step e s) \<and>
         timeouts (run es (step e s)) = [(d, p)] \<and> clock (run es (step e s)) = clock (step e s) + elapsed es"
    using Cons.IH [of "step e s"] st by blast
  show ?case
    using ih st elapsed_Cons [of e es] by (simp add: transitions_Cons)
qed











section \<open>Properties of the transitions and of the carousel\<close>

lemma bloomParticle_length [simp]:
  "length (bloomParticle original exploded r i pos) = length pos"
  by (simp add: bloomParticle_def Let_def)

lemma collapseParticle_length [simp]:
  "length (collapseParticle original exploded r i pos) = length pos"
  by (simp add: collapseParticle_def)

lemma bloomParticle_nth:
  "k < length pos \<Longrightarrow>
   bloomParticle original exploded r i pos ! k =
     (if k = i * 3 \<or> k = i * 3 + 1 \<or> k = i * 3 + 2
      then original ! k + (exploded ! k - original ! k) * r else pos ! k)"
  by (auto simp: bloomParticle_def Let_def nth_list_update)

lemma collapseParticle_nth:
  "k < length pos \<Longrightarrow>
   collapseParticle original exploded r i pos ! k =
     (if k = i * 3 \<or> k = i * 3 + 1 \<or> k = i * 3 + 2
      then exploded ! k + (original ! k - exploded ! k) * r else pos ! k)"
  by (auto simp: collapseParticle_def nth_list_update)

lemma bloom_fold_length [simp]:
  "length (fold (bloomParticle original exploded r) [0..<m] pos) = length pos"
  by (induction m) simp_all

lemma collapse_fold_length [simp]:
  "length (fold (collapseParticle original exploded r) [0..<m] pos) = length pos"
  by (induction m) simp_all

lemma triple_index: "k < Suc m * 3 \<longleftrightarrow> k < m * 3 \<or> k = m * 3 \<or> k = m * 3 + 1 \<or> k = m * 3 + 2"
  by arith

lemma bloom_fold_nth:
  "k < length pos \<Longrightarrow>
   fold (bloomParticle original exploded r) [0..<m] pos ! k =
     (if k < m * 3 then original ! k + (exploded ! k - original ! k) * r else pos ! k)"
proof (induction m)
  case 0
  then show ?case by simp
next
  case (Suc m)
  let ?xs = "fold (bloomParticle original exploded r) [0..<m] pos"
  have len: "k < length ?xs" using Suc.prems by simp
  have "fold (bloomParticle original exploded r) [0..<Suc m] pos ! k =
        bloomParticle original exploded r m ?xs ! k"
    by simp
  also have "\<dots> = (if k = m * 3 \<or> k = m * 3 + 1 \<or> k = m * 3 + 2
                     then original ! k + (exploded ! k - original ! k) * r else ?xs ! k)"
    by (rule bloomParticle_nth [OF len])
  finally show ?case
    using Suc.IH [OF Suc.prems] triple_index [of k m] by auto
qed

lemma collapse_fold_nth:
  "k < length pos \<Longrightarrow>
   fold (collapseParticle original exploded r) [0..<m] pos ! k =
     (if k < m * 3 then exploded ! k + (original ! k - exploded ! k) * r else pos ! k)"
proof (induction m)
  case 0
  then show ?case by simp
next
  case (Suc m)
  let ?xs = "fold (collapseParticle original exploded r) [0..<m] pos"
  have len: "k < length ?xs" using Suc.prems by simp
  have "fold (collapseParticle original exploded r) [0..<Suc m] pos ! k =
        collapseParticle original exploded r m ?xs ! k"
    by simp
  also have "\<dots> = (if k = m * 3 \<or> k = m * 3 + 1 \<or> k = m * 3 + 2
                     then exploded ! k + (original ! k - exploded ! k) * r else ?xs ! k)"
    by (rule collapseParticle_nth [OF len])
  finally show ?case
    using Suc.IH [OF Suc.prems] triple_index [of k m] by auto
qed

lemma bloomOnUpdate_one:
  assumes "arraysOk s"
  shows "positions (bloomOnUpdate 1 s) = explodedPositions s"
proof (rule nth_equalityI)
  show "length (positions (bloomOnUpdate 1 s)) = length (explodedPositions s)"
    using assms by (simp add: bloomOnUpdate_def arraysOk_def)
next
  fix k assume "k < length (positions (bloomOnUpdate 1 s))"
  then have "k < length (positions s)" by (simp add: bloomOnUpdate_def)
  then show "positions (bloomOnUpdate 1 s) ! k = explodedPositions s ! k"
    using assms by (simp add: bloomOnUpdate_def arraysOk_def bloom_fold_nth)
qed

lemma collapseOnUpdate_one:
  assumes "arraysOk s"
  shows "positions (collapseOnUpdate 1 s) = originalPositions s"
proof (rule nth_equalityI)
  show "length (positions (collapseOnUpdate 1 s)) = length (originalPositions s)"
    using assms by (simp add: collapseOnUpdate_def arraysOk_def)
next
  fix k assume "k < length (positions (collapseOnUpdate 1 s))"
  then have "k < length (positions s)" by (simp add: collapseOnUpdate_def)
  then show "positions (collapseOnUpdate 1 s) ! k = originalPositions s ! k"
    using assms by (simp add: collapseOnUpdate_def arraysOk_def collapse_fold_nth)
qed

lemma run_append: "run (es @ es') s = run es' (run es s)"
  by (simp add: run_def)

lemma reachable_run: "reachable s \<Longrightarrow> reachable (run es s)"
  by (induction es arbitrary: s) (simp_all add: reachable_step)

lemma timersOk_run: "timersOk s \<Longrightarrow> timersOk (run es s)"
  by (induction es arbitrary: s) (simp_all add: timersOk_step)

lemma fold_fireTimeout_frame [simp]:
  "tweens (fold fireTimeout ts s) = tweens s"
  "positions (fold fireTimeout ts s) = positions s"
  "originalPositions (fold fireTimeout ts s) = originalPositions s"
  "explodedPositions (fold fireTimeout ts s) = explodedPositions s"
  "particleRotationY (fold fireTimeout ts s) = particleRotationY s"
  "ornamentRotationY (fold fireTimeout ts s) = ornamentRotationY s"
  "photoRotationY (fold fireTimeout ts s) = photoRotationY s"
  "carouselRotation (fold fireTimeout ts s) = carouselRotation s"
  "velocities (fold fireTimeout ts s) = velocities s"
  by (induction ts arbitrary: s; simp add: fireTimeout_def)+

lemma elapse_frame [simp]:
  "tweens (elapse dt s) = tweens s"
  "positions (elapse dt s) = positions s"
  "originalPositions (elapse dt s) = originalPositions s"
  "explodedPositions (elapse dt s) = explodedPositions s"
  "particleRotationY (elapse dt s) = particleRotationY s"
  "ornamentRotationY (elapse dt s) = ornamentRotationY s"
  "photoRotationY (elapse dt s) = photoRotationY s"
  "carouselRotation (elapse dt s) = carouselRotation s"
  "velocities (elapse dt s) = velocities s"
  by (simp_all add: elapse_def Let_def)

lemma renderTween_arrays [simp]:
  "originalPositions (renderTween tw r s) = originalPositions s"
  "explodedPositions (renderTween tw r s) = explodedPositions s"
  "length (positions (renderTween tw r s)) = length (positions s)"
  "velocities (renderTween tw r s) = velocities s"
  by (cases tw; simp add: bloomOnUpdate_def collapseOnUpdate_def Let_def)+

lemma onComplete_arrays [simp]:
  "originalPositions (onComplete tw s) = originalPositions s"
  "explodedPositions (onComplete tw s) = explodedPositions s"
  "positions (onComplete tw s) = positions s"
  "particleRotationY (onComplete tw s) = particleRotationY s"
  "ornamentRotationY (onComplete tw s) = ornamentRotationY s"
  "photoRotationY (onComplete tw s) = photoRotationY s"
  "velocities (onComplete tw s) = velocities s"
  by (cases tw; simp)+

lemma completeTween_arrays [simp]:
  "originalPositions (completeTween tw s) = originalPositions s"
  "explodedPositions (completeTween tw s) = explodedPositions s"
  "length (positions (completeTween tw s)) = length (positions s)"
  "velocities (completeTween tw s) = velocities s"
  "tweens (completeTween tw s) = remove1 tw (tweens s)"
  by (simp_all add: completeTween_def Let_def)

lemma triggers_arrays [simp]:
  "originalPositions (triggerBlooming s) = originalPositions s"
  "explodedPositions (triggerBlooming s) = explodedPositions s"
  "positions (triggerBlooming s) = positions s"
  "originalPositions (triggerCollapsing s) = originalPositions s"
  "explodedPositions (triggerCollapsing s) = explodedPositions s"
  "positions (triggerCollapsing s) = positions s"
  "originalPositions (rotateCarousel d s) = originalPositions s"
  "explodedPositions (rotateCarousel d s) = explodedPositions s"
  "positions (rotateCarousel d s) = positions s"
  "velocities (triggerBlooming s) = velocities s"
  "velocities (triggerCollapsing s) = velocities s"
  "velocities (rotateCarousel d s) = velocities s"
  by (simp_all add: triggerBlooming_def triggerCollapsing_def rotateCarousel_def Let_def)

lemma step_arrays:
  "originalPositions (step e s) = originalPositions s"
  "explodedPositions (step e s) = explodedPositions s"
  "length (positions (step e s)) = length (positions s)"
  "length (velocities (step e s)) = length (velocities s)"
  by (cases e; simp)+

lemma run_arrays:
  "originalPositions (run es s) = originalPositions s"
  "explodedPositions (run es s) = explodedPositions s"
  "length (positions (run es s)) = length (positions s)"
  "length (velocities (run es s)) = length (velocities s)"
  by (induction es arbitrary: s; simp add: step_arrays)+

lemma arraysOk_run: "arraysOk s \<Longrightarrow> arraysOk (run es s)"
  by (simp add: arraysOk_def run_arrays)

lemma frame_step_tweens: "frameEvent e \<Longrightarrow> tweens (step e s) = tweens s"
  by (cases e) simp_all

lemma frame_run_tweens: "list_all frameEvent es \<Longrightarrow> tweens (run es s) = tweens s"
  by (induction es arbitrary: s) (simp_all add: frame_step_tweens)

text \<open>In Nebula with no timer pending, only \<open>triggerCollapsing\<close> changes the phase.\<close>

lemma nebula_step:
  assumes "phase s = Nebula" "timeouts s = []" "e \<noteq> TriggerCollapsing"
  shows "phase (step e s) = Nebula \<and> timeouts (step e s) = []"
  using assms elapse_idle [of s]
  by (cases e) (simp_all add: triggerBlooming_def rotateCarousel_def Let_def)

lemma nebula_run:
  assumes "phase s = Nebula" "timeouts s = []" "TriggerCollapsing \<notin> set es"
  shows "phase (run es s) = Nebula \<and> timeouts (run es s) = []"
  using assms
proof (induction es arbitrary: s)
  case Nil
  then show ?case by simp
next
  case (Cons e es)
  then have "phase (step e s) = Nebula \<and> timeouts (step e s) = []"
    using nebula_step [of s e] by auto
  then show ?case using Cons by simp
qed

lemma frame_not_trigger: "list_all frameEvent es \<Longrightarrow> TriggerCollapsing \<notin> set es"
  by (induction es) auto

lemma elapsed_append: "elapsed (es @ es') = elapsed es + elapsed es'"
  by (induction es rule: elapsed.induct) simp_all

lemma completeTween_ParticleBloom:
  "arraysOk s \<Longrightarrow> positions (completeTween ParticleBloom s) = explodedPositions s"
  by (simp add: completeTween_def Let_def bloomOnUpdate_one)

lemma completeTween_ParticleCollapse:
  "arraysOk s \<Longrightarrow> positions (completeTween ParticleCollapse s) = originalPositions s"
  by (simp add: completeTween_def Let_def collapseOnUpdate_one)

lemma completeTween_RotationReset:
  "particleRotationY (completeTween (RotationReset p0 o0) s) = 0"
  "ornamentRotationY (completeTween (RotationReset p0 o0) s) = 0"
  "positions (completeTween (RotationReset p0 o0) s) = positions s"
  "photoRotationY (completeTween (RotationReset p0 o0) s) = photoRotationY s"
  "carouselRotation (completeTween (RotationReset p0 o0) s) = carouselRotation s"
  by (simp_all add: completeTween_def Let_def)

lemma completeTween_CarouselTurn:
  "photoRotationY (completeTween (CarouselTurn y0 t) s) = t"
  "carouselRotation (completeTween (CarouselTurn y0 t) s) = t"
  by (simp_all add: completeTween_def Let_def)

text \<open>The blooming transition, run to completion.\<close>

lemma bloomingRun_result:
  assumes inv: "timersOk s" and arr: "arraysOk s" and ph: "phase s = Tree"
    and fr: "list_all frameEvent es" and el: "elapsed es < 2500"
  shows "phase (run (bloomingRun es) s) = Nebula"
    and "timeouts (run (bloomingRun es) s) = []"
    and "positions (run (bloomingRun es) s) = explodedPositions s"
proof -
  have t0: "timeouts s = []" using inv ph by (simp add: timersOk_def)
  let ?s1 = "triggerBlooming s"
  have p1: "phase ?s1 = Blooming \<or> phase ?s1 = Collapsing"
    and t1: "timeouts ?s1 = [(clock s + 2500, Nebula)]" and c1: "clock ?s1 = clock s"
    and tw1: "ParticleBloom \<in> set (tweens ?s1)"
    using ph t0 by (simp_all add: triggerBlooming_def)
  let ?s2 = "run es ?s1"
  have lt: "clock ?s1 + elapsed es < clock s + 2500" using el c1 by simp
  note r = run_transient [OF p1 t1 lt]
  have tw2: "ParticleBloom \<in> set (tweens ?s2)"
    using tw1 frame_run_tweens [OF fr] by simp
  have arr2: "arraysOk ?s2" using arr by (simp add: arraysOk_def run_arrays)
  let ?s3 = "step (Complete ParticleBloom) ?s2"
  have s3: "?s3 = completeTween ParticleBloom ?s2" using tw2 by simp
  have pos3: "positions ?s3 = explodedPositions s"
    using completeTween_ParticleBloom [OF arr2] s3 by (simp add: run_arrays)
  have t3: "timeouts ?s3 = [(clock s + 2500, Nebula)]" and c3: "clock ?s3 = clock s + elapsed es"
    using r s3 c1 by simp_all
  have due: "clock s + 2500 \<le> clock ?s3 + (2500 - elapsed es)" using c3 el by simp
  have run: "run (bloomingRun es) s = elapse (2500 - elapsed es) ?s3"
    by (simp add: bloomingRun_def run_append)
  show "phase (run (bloomingRun es) s) = Nebula"
    and "timeouts (run (bloomingRun es) s) = []"
    using elapse_due [OF t3 due] run by simp_all
  show "positions (run (bloomingRun es) s) = explodedPositions s"
    using run pos3 by simp
qed

text \<open>The collapsing transition, run to completion.\<close>

lemma collapsingRun_result:
  assumes inv: "timersOk s" and ph: "phase s = Nebula"
    and fr: "list_all frameEvent es" and el: "elapsed es < 2500"
  defines "s' \<equiv> run (collapsingRun (particleRotationY s) (ornamentRotationY s) es) s"
  shows "phase s' = Tree"
    and "timeouts s' = []"
    and "arraysOk s \<Longrightarrow> positions s' = originalPositions s"
    and "particleRotationY s' = 0"
    and "ornamentRotationY s' = 0"
proof -
  have t0: "timeouts s = []" using inv ph by (simp add: timersOk_def)
  let ?reset = "RotationReset (particleRotationY s) (ornamentRotationY s)"
  let ?s1 = "triggerCollapsing s"
  have p1: "phase ?s1 = Blooming \<or> phase ?s1 = Collapsing"
    and t1: "timeouts ?s1 = [(clock s + 2500, Tree)]" and c1: "clock ?s1 = clock s"
    and tw1: "tweens ?s1 = tweens s @ [ParticleCollapse, ?reset]"
    using ph t0 by (simp_all add: triggerCollapsing_def)
  let ?s2 = "run es ?s1"
  have lt: "clock ?s1 + elapsed es < clock s + 2500" using el c1 by simp
  note r = run_transient [OF p1 t1 lt]
  have tw2: "tweens ?s2 = tweens s @ [ParticleCollapse, ?reset]"
    using tw1 frame_run_tweens [OF fr] by simp
  let ?s3 = "step (Complete ParticleCollapse) ?s2"
  have s3: "?s3 = completeTween ParticleCollapse ?s2" using tw2 by simp
  have "?reset \<in> set (remove1 ParticleCollapse (tweens s @ [ParticleCollapse, ?reset]))"
    by (simp add: remove1_append)
  then have tw3: "?reset \<in> set (tweens ?s3)" using s3 tw2 by simp
  let ?s4 = "step (Complete ?reset) ?s3"
  have s4: "?s4 = completeTween ?reset ?s3" using tw3 by simp
  have t4: "timeouts ?s4 = [(clock s + 2500, Tree)]" and c4: "clock ?s4 = clock s + elapsed es"
    using r s3 s4 c1 by simp_all
  have due: "clock s + 2500 \<le> clock ?s4 + (2500 - elapsed es)" using c4 el by simp
  have run: "s' = elapse (2500 - elapsed es) ?s4"
    by (simp add: s'_def collapsingRun_def run_append)
  show "phase s' = Tree" and "timeouts s' = []"
    using elapse_due [OF t4 due] run by simp_all
  show "particleRotationY s' = 0" and "ornamentRotationY s' = 0"
    using run s4 by (simp_all add: completeTween_RotationReset)
  show "positions s' = originalPositions s" if arr: "arraysOk s"
  proof -
    have arr2: "arraysOk ?s2" using arr by (simp add: arraysOk_def run_arrays)
    have "positions ?s3 = originalPositions s"
      using completeTween_ParticleCollapse [OF arr2] s3 by (simp add: run_arrays)
    then show ?thesis using run s4 by (simp add: completeTween_RotationReset)
  qed
qed

lemma renderTween_sync:
  "photoRotationY s = carouselRotation s \<Longrightarrow>
   photoRotationY (renderTween tw r s) = carouselRotation (renderTween tw r s)"
  by (cases tw) (simp_all add: bloomOnUpdate_def collapseOnUpdate_def Let_def)

lemma completeTween_sync:
  "photoRotationY s = carouselRotation s \<Longrightarrow>
   photoRotationY (completeTween tw s) = carouselRotation (completeTween tw s)"
  by (cases tw) (simp_all add: completeTween_def bloomOnUpdate_def collapseOnUpdate_def Let_def)

lemma step_sync:
  "photoRotationY s = carouselRotation s \<Longrightarrow>
   photoRotationY (step e s) = carouselRotation (step e s)"
  by (cases e)
     (simp_all add: triggerBlooming_def triggerCollapsing_def rotateCarousel_def Let_def
        renderTween_sync completeTween_sync)

lemma reachable_sync: "reachable s \<Longrightarrow> photoRotationY s = carouselRotation s"
  by (induction rule: reachable.induct) (simp_all add: initApp_def step_sync)

lemma carouselRun_result:
  fixes d :: real
  assumes ph: "phase s = Nebula" and t0: "timeouts s = []" and fr: "list_all frameEvent es"
  defines "target \<equiv> carouselRotation s + d * (pi * 2 / real PHOTO_COUNT)"
  shows "phase (run (carouselRun d es s) s) = Nebula"
    and "timeouts (run (carouselRun d es s) s) = []"
    and "photoRotationY (run (carouselRun d es s) s) = target"
    and "carouselRotation (run (carouselRun d es s) s) = target"
proof -
  let ?tw = "CarouselTurn (photoRotationY s) target"
  let ?s1 = "rotateCarousel d s"
  have p1: "phase ?s1 = Nebula" and t1: "timeouts ?s1 = []"
    and tw1: "?tw \<in> set (tweens ?s1)"
    using ph t0 by (simp_all add: rotateCarousel_def Let_def target_def)
  let ?s2 = "run es ?s1"
  note n2 = nebula_run [OF p1 t1 frame_not_trigger [OF fr]]
  have tw2: "?tw \<in> set (tweens ?s2)" using tw1 frame_run_tweens [OF fr] by simp
  have run: "run (carouselRun d es s) s = completeTween ?tw ?s2"
    using tw2 by (simp add: carouselRun_def run_append target_def)
  show "phase (run (carouselRun d es s) s) = Nebula"
    and "timeouts (run (carouselRun d es s) s) = []"
    using run n2 by simp_all
  show "photoRotationY (run (carouselRun d es s) s) = target"
    and "carouselRotation (run (carouselRun d es s) s) = target"
    using run by (simp_all add: completeTween_CarouselTurn)
qed

lemma rotateTimes_result:
  assumes "phase s = Nebula" "timeouts s = []" "photoRotationY s = carouselRotation s"
    and "\<forall>es \<in> set ess. list_all frameEvent es"
  shows "phase (rotateTimes d ess s) = Nebula \<and>
         photoRotationY (rotateTimes d ess s) =
           photoRotationY s + real (length ess) * (d * (pi * 2 / real PHOTO_COUNT)) \<and>
         carouselRotation (rotateTimes d ess s) = photoRotationY (rotateTimes d ess s)"
  using assms
proof (induction ess arbitrary: s)
  case Nil
  then show ?case by simp
next
  case (Cons es ess)
  let ?s' = "run (carouselRun d es s) s"
  have fr: "list_all frameEvent es" using Cons.prems(4) by simp
  note one = carouselRun_result [OF Cons.prems(1,2) fr, of d]
  have "phase (rotateTimes d ess ?s') = Nebula \<and>
        photoRotationY (rotateTimes d ess ?s') =
          photoRotationY ?s' + real (length ess) * (d * (pi * 2 / real PHOTO_COUNT)) \<and>
        carouselRotation (rotateTimes d ess ?s') = photoRotationY (rotateTimes d ess ?s')"
    using Cons.prems(4) one by (intro Cons.IH) simp_all
  then show ?case
    using one Cons.prems(3) by (simp add: distrib_right add_divide_distrib)
qed

text \<open>
  Claim C7. In every reachable state: \<open>rotateCarousel\<close> leaves the state as it is when the
  phase is not Nebula; in Nebula it starts a tween of the photo ring whose target is the
  stored \<open>carouselRotation\<close> plus \<open>direction * (2\<pi> / PHOTO_COUNT)\<close>, and the ring is at that
  angle once the tween has completed; and \<open>PHOTO_COUNT\<close> calls of \<open>rotateCarousel(1)\<close>, each
  tween allowed to complete, turn the ring (and the stored angle) by exactly \<open>2\<pi>\<close>, so that
  the ring is back at its original angle modulo \<open>2\<pi>\<close>.
\<close>

theorem carousel_full_turn:
  assumes "reachable s"
  shows "(phase s \<noteq> Nebula \<longrightarrow> rotateCarousel d s = s) \<and>
         (phase s = Nebula \<longrightarrow>
            rotateCarousel d s =
              s\<lparr>tweens := tweens s @ [CarouselTurn (photoRotationY s)
                   (carouselRotation s + d * (pi * 2 / real PHOTO_COUNT))]\<rparr>) \<and>
         (phase s = Nebula \<and> list_all frameEvent es \<longrightarrow>
            photoRotationY (run (carouselRun d es s) s) =
              carouselRotation s + d * (pi * 2 / real PHOTO_COUNT)) \<and>
         (phase s = Nebula \<and> length ess = PHOTO_COUNT \<and> (\<forall>es \<in> set ess. list_all frameEvent es) \<longrightarrow>
            photoRotationY (rotateTimes 1 ess s) = photoRotationY s + 2 * pi \<and>
            carouselRotation (rotateTimes 1 ess s) = carouselRotation s + 2 * pi \<and>
            cos (photoRotationY (rotateTimes 1 ess s)) = cos (photoRotationY s) \<and>
            sin (photoRotationY (rotateTimes 1 ess s)) = sin (photoRotationY s))"
proof -
  note inv = reachable_timersOk [OF assms]
  note sync = reachable_sync [OF assms]
  have idle: "timeouts s = []" if "phase s = Nebula"
    using inv that by (simp add: timersOk_def)
  have 1: "phase s \<noteq> Nebula \<longrightarrow> rotateCarousel d s = s"
    by (simp add: rotateCarousel_def)
  have 2: "phase s = Nebula \<longrightarrow>
            rotateCarousel d s =
              s\<lparr>tweens := tweens s @ [CarouselTurn (photoRotationY s)
                   (carouselRotation s + d * (pi * 2 / real PHOTO_COUNT))]\<rparr>"
    by (simp add: rotateCarousel_def Let_def)
  have 3: "photoRotationY (run (carouselRun d es s) s) =
              carouselRotation s + d * (pi * 2 / real PHOTO_COUNT)"
    if "phase s = Nebula" "list_all frameEvent es"
    using carouselRun_result(3) [OF that(1) idle [OF that(1)] that(2)] by simp
  have 4: "photoRotationY (rotateTimes 1 ess s) = photoRotationY s + 2 * pi \<and>
            carouselRotation (rotateTimes 1 ess s) = carouselRotation s + 2 * pi \<and>
            cos (photoRotationY (rotateTimes 1 ess s)) = cos (photoRotationY s) \<and>
            sin (photoRotationY (rotateTimes 1 ess s)) = sin (photoRotationY s)"
    if ph: "phase s = Nebula" and n: "length ess = PHOTO_COUNT"
      and fr: "\<forall>es \<in> set ess. list_all frameEvent es"
  proof -
    note r = rotateTimes_result [OF ph idle [OF ph] sync fr, of 1]
    have "real (length ess) * (1 * (pi * 2 / real PHOTO_COUNT)) = 2 * pi"
      using n by (simp add: PHOTO_COUNT_def)
    then have a: "photoRotationY (rotateTimes 1 ess s) = photoRotationY s + 2 * pi"
      using r by simp
    then show ?thesis using r sync by simp
  qed
  show ?thesis using 1 2 3 4 by blast
qed



lemma triggerCollapsing_carousel [simp]:
  "photoRotationY (triggerCollapsing s) = photoRotationY s"
  "carouselRotation (triggerCollapsing s) = carouselRotation s"
  by (simp_all add: triggerCollapsing_def)

lemma completeTween_ParticleCollapse_carousel [simp]:
  "photoRotationY (completeTween ParticleCollapse s) = photoRotationY s"
  "carouselRotation (completeTween ParticleCollapse s) = carouselRotation s"
  by (simp_all add: completeTween_def Let_def collapseOnUpdate_def)



text \<open>
  Claim C3. From any reachable state in Tree with well-formed arrays: the blooming
  transition run to completion ends in Nebula with every particle at its exploded position;
  after any events in Nebula other than \<open>triggerCollapsing\<close>, the collapsing transition run
  to completion ends in Tree with the position array equal to the array of original
  positions, so every coordinate is within every \<open>\<epsilon> > 0\<close> of its origin. (Over the real
  numbers the interpolation ends exactly at its target; the \<open>\<epsilon>\<close> of the claim covers the
  rounding of the 32-bit floats, which is not modelled. The theorem speaks of the state at
  the moment Tree is entered; from then on each frame of the Tree phase moves the particles
  again, by \<open>applyRippleEffect\<close>.)
\<close>

theorem round_trip_restores_origin:
  assumes "reachable s0" "arraysOk s0" "phase s0 = Tree"
    and "list_all frameEvent es1" "elapsed es1 < 2500"
    and "TriggerCollapsing \<notin> set mid"
    and "list_all frameEvent es2" "elapsed es2 < 2500"
  shows "let s2 = run (bloomingRun es1) s0;
             s3 = run mid s2;
             s4 = run (collapsingRun (particleRotationY s3) (ornamentRotationY s3) es2) s3
         in phase s2 = Nebula \<and> positions s2 = explodedPositions s0 \<and>
            phase s3 = Nebula \<and>
            phase s4 = Tree \<and> positions s4 = originalPositions s0 \<and>
            (\<forall>k < PARTICLE_COUNT * 3. \<forall>\<epsilon> > 0. \<bar>positions s4 ! k - originalPositions s0 ! k\<bar> < \<epsilon>)"
proof -
  define s2 where "s2 = run (bloomingRun es1) s0"
  define s3 where "s3 = run mid s2"
  define s4 where "s4 = run (collapsingRun (particleRotationY s3) (ornamentRotationY s3) es2) s3"
  note inv0 = reachable_timersOk [OF assms(1)]
  have b: "phase s2 = Nebula" "timeouts s2 = []" "positions s2 = explodedPositions s0"
    using bloomingRun_result [OF inv0 assms(2,3,4,5)] by (simp_all add: s2_def)
  have n: "phase s3 = Nebula"
    using nebula_run [OF b(1,2) assms(6)] by (simp add: s3_def)
  have r3: "reachable s3"
    using assms(1) by (simp add: s3_def s2_def reachable_run)
  have a3: "arraysOk s3" and o3: "originalPositions s3 = originalPositions s0"
    using assms(2) by (simp_all add: s3_def s2_def arraysOk_run run_arrays)
  note c = collapsingRun_result [OF reachable_timersOk [OF r3] n assms(7,8)]
  have c1: "phase s4 = Tree" using c(1) by (simp add: s4_def)
  have c2: "positions s4 = originalPositions s0"
    using c(3) [OF a3] o3 by (simp add: s4_def)
  show ?thesis
    using b n c1 c2 by (simp add: Let_def s2_def s3_def s4_def)
qed

lemma reachable_example: "reachable exampleApp"
  by (simp add: exampleApp_def reachable_init)

lemma arraysOk_example: "arraysOk exampleApp"
  by (simp add: exampleApp_def initApp_def arraysOk_def)

theorem round_trip_restores_origin_witness:
  "let s2 = run (bloomingRun [Elapse 1000, Render ParticleBloom (1/2)]) exampleApp;
       s3 = run [RotateCarousel 1, Animate (Vector3 0 0 0)] s2;
       s4 = run (collapsingRun (particleRotationY s3) (ornamentRotationY s3) [Elapse 2000]) s3
   in phase s4 = Tree \<and> positions s4 = replicate (PARTICLE_COUNT * 3) 0"
  using round_trip_restores_origin [OF reachable_example arraysOk_example,
      of "[Elapse 1000, Render ParticleBloom (1/2)]" "[RotateCarousel 1, Animate (Vector3 0 0 0)]"
        "[Elapse 2000]"]
  by (simp add: Let_def) (simp add: exampleApp_def initApp_def)

lemma nebulaExample_fields:
  "phase nebulaExample = Nebula" "timeouts nebulaExample = []" "tweens nebulaExample = []"
  "carouselRotation nebulaExample = 0" "photoRotationY nebulaExample = 0"
  "particleRotationY nebulaExample = 0" "ornamentRotationY nebulaExample = 0"
  "clock nebulaExample = 2500"
  by (simp_all add: nebulaExample_def bloomingRun_def exampleApp_def initApp_def
      triggerBlooming_def completeTween_def bloomOnUpdate_def elapse_def fireTimeout_def Let_def)

lemma reachable_nebulaExample: "reachable nebulaExample"
  by (simp add: nebulaExample_def reachable_run reachable_example)





theorem carousel_full_turn_witness:
  "rotateCarousel 1 exampleApp = exampleApp \<and>
   photoRotationY (run (carouselRun 1 [] nebulaExample) nebulaExample) = pi / 12 \<and>
   photoRotationY (rotateTimes 1 (replicate 24 [Elapse 800]) nebulaExample) = 2 * pi"
  using carousel_full_turn [OF reachable_example, of 1 "[]" "[]"]
    carousel_full_turn [OF reachable_nebulaExample, of 1 "[]" "replicate 24 [Elapse 800]"]
  by (simp add: nebulaExample_fields PHOTO_COUNT_def) (simp add: exampleApp_def initApp_def)


section \<open>Properties of the gesture classifier\<close>

lemmas HAND_LANDMARKS =
  WRIST_def THUMB_CMC_def THUMB_MCP_def THUMB_IP_def THUMB_TIP_def
  INDEX_FINGER_MCP_def INDEX_FINGER_PIP_def INDEX_FINGER_DIP_def INDEX_FINGER_TIP_def
  MIDDLE_FINGER_MCP_def MIDDLE_FINGER_PIP_def MIDDLE_FINGER_DIP_def MIDDLE_FINGER_TIP_def
  RING_FINGER_MCP_def RING_FINGER_PIP_def RING_FINGER_DIP_def RING_FINGER_TIP_def
  PINKY_MCP_def PINKY_PIP_def PINKY_DIP_def PINKY_TIP_def

lemma isFingerOpen_fingers:
  assumes "21 \<le> length lms"
  shows "isFingerOpen lms [THUMB_CMC, THUMB_MCP, THUMB_IP, THUMB_TIP] =
           Some (tipBeyondBase lms THUMB_TIP THUMB_CMC)"
    and "isFingerOpen lms [INDEX_FINGER_MCP, INDEX_FINGER_PIP, INDEX_FINGER_DIP, INDEX_FINGER_TIP] =
           Some (tipAboveBase lms INDEX_FINGER_TIP INDEX_FINGER_MCP)"
    and "isFingerOpen lms [MIDDLE_FINGER_MCP, MIDDLE_FINGER_PIP, MIDDLE_FINGER_DIP, MIDDLE_FINGER_TIP] =
           Some (tipAboveBase lms MIDDLE_FINGER_TIP MIDDLE_FINGER_MCP)"
    and "isFingerOpen lms [RING_FINGER_MCP, RING_FINGER_PIP, RING_FINGER_DIP, RING_FINGER_TIP] =
           Some (tipAboveBase lms RING_FINGER_TIP RING_FINGER_MCP)"
    and "isFingerOpen lms [PINKY_MCP, PINKY_PIP, PINKY_DIP, PINKY_TIP] =
           Some (tipAboveBase lms PINKY_TIP PINKY_MCP)"
  using assms by (simp_all add: HAND_LANDMARKS tipBeyondBase_def tipAboveBase_def Let_def)

lemma palm_fold:
  "fold (\<lambda>idx acc. acc + f idx) palmLandmarks 0 / real (length palmLandmarks) =
     (f WRIST + f THUMB_CMC + f INDEX_FINGER_MCP + f MIDDLE_FINGER_MCP + f RING_FINGER_MCP
        + f PINKY_MCP) / (6::real)"
  by (simp add: palmLandmarks_def)

lemma detectPalmSwipe_eq:
  assumes "21 \<le> length lms"
  shows "detectPalmSwipe lms now s =
     Some (case lastPalmPosition s of
             Some lastPos \<Rightarrow>
               if now - lastSwipeTime s > palmSwipeTimeout \<and>
                  \<bar>fst (palmCentroid lms) - fst lastPos\<bar> > swipeThreshold
               then s\<lparr>dispatched := dispatched s @
                          [SwipeEvent (if fst (palmCentroid lms) - fst lastPos > 0
                                       then ''right'' else ''left'')],
                       lastSwipeTime := now, lastPalmPosition := None\<rparr>
               else s\<lparr>lastPalmPosition := Some (palmCentroid lms)\<rparr>
           | None \<Rightarrow> s\<lparr>lastPalmPosition := Some (palmCentroid lms)\<rparr>)"
proof -
  have ok: "list_all (\<lambda>idx. idx < length lms) palmLandmarks"
    using assms by (auto simp: palmLandmarks_def HAND_LANDMARKS)
  have c: "(fold (\<lambda>idx acc. acc + lmX (lms ! idx)) palmLandmarks 0 / real (length palmLandmarks),
            fold (\<lambda>idx acc. acc + lmY (lms ! idx)) palmLandmarks 0 / real (length palmLandmarks))
           = palmCentroid lms"
    by (simp only: palm_fold palmCentroid_def)
  show ?thesis
    unfolding detectPalmSwipe_def Let_def c
    using ok by (simp add: triggerSwipeEvent_def split: option.splits)
qed

lemma swipes_append [simp]: "swipes (evs @ evs') = swipes evs @ swipes evs'"
  by (induction evs rule: swipes.induct) simp_all

lemma gestures_append [simp]: "gestures (evs @ evs') = gestures evs @ gestures evs'"
  by (induction evs rule: gestures.induct) simp_all

lemma gesture_chain:
  "(if \<not> t \<and> \<not> i \<and> \<not> m \<and> \<not> r \<and> \<not> p then Some (''fist'', A)
    else if t \<and> i \<and> m \<and> r \<and> p then X
    else if t \<and> \<not> i \<and> \<not> m \<and> \<not> r \<and> \<not> p then Some (''thumbs_up'', A)
    else if \<not> t \<and> i \<and> m \<and> \<not> r \<and> \<not> p then Some (''victory'', A)
    else if \<not> t \<and> i \<and> \<not> m \<and> \<not> r \<and> \<not> p then Some (''point'', A)
    else Some (''none'', A)) =
   (if t \<and> i \<and> m \<and> r \<and> p then X else Some (gestureTable t i m r p, A))"
  by (cases t; cases i; cases m; cases r; cases p; simp add: gestureTable_def)

lemma classify_open_palm:
  "classify lms = ''open_palm'' \<longleftrightarrow>
     tipBeyondBase lms THUMB_TIP THUMB_CMC \<and> tipAboveBase lms INDEX_FINGER_TIP INDEX_FINGER_MCP \<and>
     tipAboveBase lms MIDDLE_FINGER_TIP MIDDLE_FINGER_MCP \<and>
     tipAboveBase lms RING_FINGER_TIP RING_FINGER_MCP \<and> tipAboveBase lms PINKY_TIP PINKY_MCP"
  unfolding classify_def
  by (cases "tipBeyondBase lms THUMB_TIP THUMB_CMC";
      cases "tipAboveBase lms INDEX_FINGER_TIP INDEX_FINGER_MCP";
      cases "tipAboveBase lms MIDDLE_FINGER_TIP MIDDLE_FINGER_MCP";
      cases "tipAboveBase lms RING_FINGER_TIP RING_FINGER_MCP";
      cases "tipAboveBase lms PINKY_TIP PINKY_MCP"; simp add: gestureTable_def)

lemma detectGesture_eq:
  assumes len: "21 \<le> length (landmarks hand)"
    and due: "GESTURE_DETECTION_INTERVAL \<le> now - lastGestureTime s"
  shows "detectGesture hand now s =
     Some (let s2 = (afterBranch (landmarks hand) now s)\<lparr>currentGesture := classify (landmarks hand)\<rparr>
           in if currentGesture s2 \<noteq> previousGesture s2
              then s2\<lparr>dispatched := dispatched s2 @ [GestureEvent (currentGesture s2)],
                      previousGesture := currentGesture s2, lastGestureTime := now\<rparr>
              else s2)"
proof -
  let ?lms = "landmarks hand"
  obtain s1 where s1: "detectPalmSwipe ?lms now s = Some s1"
    using detectPalmSwipe_eq [OF len] by blast
  have nd: "\<not> now - lastGestureTime s < GESTURE_DETECTION_INTERVAL" using due by simp
  have branch:
    "(if tipBeyondBase ?lms THUMB_TIP THUMB_CMC \<and> tipAboveBase ?lms INDEX_FINGER_TIP INDEX_FINGER_MCP \<and>
         tipAboveBase ?lms MIDDLE_FINGER_TIP MIDDLE_FINGER_MCP \<and>
         tipAboveBase ?lms RING_FINGER_TIP RING_FINGER_MCP \<and> tipAboveBase ?lms PINKY_TIP PINKY_MCP
      then (case detectPalmSwipe ?lms now s of Some s1 \<Rightarrow> Some (''open_palm'', s1) | None \<Rightarrow> None)
      else Some (classify ?lms, s\<lparr>lastPalmPosition := None\<rparr>))
     = Some (classify ?lms, afterBranch ?lms now s)"
  proof (cases "classify ?lms = ''open_palm''")
    case True
    then have "tipBeyondBase ?lms THUMB_TIP THUMB_CMC \<and> tipAboveBase ?lms INDEX_FINGER_TIP INDEX_FINGER_MCP \<and>
         tipAboveBase ?lms MIDDLE_FINGER_TIP MIDDLE_FINGER_MCP \<and>
         tipAboveBase ?lms RING_FINGER_TIP RING_FINGER_MCP \<and> tipAboveBase ?lms PINKY_TIP PINKY_MCP"
      using classify_open_palm by blast
    then show ?thesis using s1 True by (simp add: afterBranch_def)
  next
    case False
    then have n: "\<not> (tipBeyondBase ?lms THUMB_TIP THUMB_CMC \<and> tipAboveBase ?lms INDEX_FINGER_TIP INDEX_FINGER_MCP \<and>
         tipAboveBase ?lms MIDDLE_FINGER_TIP MIDDLE_FINGER_MCP \<and>
         tipAboveBase ?lms RING_FINGER_TIP RING_FINGER_MCP \<and> tipAboveBase ?lms PINKY_TIP PINKY_MCP)"
      using classify_open_palm by blast
    show ?thesis
      by (simp only: afterBranch_def if_not_P [OF n] if_not_P [OF False])
  qed
  have "detectGesture hand now s =
        (case Some (classify ?lms, afterBranch ?lms now s) of
           Some (gesture, s1) \<Rightarrow>
             (let s2 = s1\<lparr>currentGesture := gesture\<rparr>
              in if currentGesture s2 \<noteq> previousGesture s2
                 then Some ((triggerGestureEvent (currentGesture s2) s2)
                              \<lparr>previousGesture := currentGesture s2, lastGestureTime := now\<rparr>)
                 else Some s2)
         | None \<Rightarrow> None)"
    unfolding detectGesture_def Let_def isFingerOpen_fingers [OF len] branch [symmetric]
    using nd by (simp only: if_False prod.case option.case gesture_chain classify_def)
  then show ?thesis
    by (simp add: Let_def triggerGestureEvent_def)
qed

lemma detectGesture_throttled:
  "now - lastGestureTime s < GESTURE_DETECTION_INTERVAL \<Longrightarrow> detectGesture hand now s = Some s"
  by (simp add: detectGesture_def Let_def)

lemma detectHands_hand:
  assumes "isDetecting s" "handposeModel s"
  shows "detectHands (hand # others) now s =
           (case detectGesture hand now s of Some s' \<Rightarrow> s' | None \<Rightarrow> s)"
  using assms by (simp add: detectHands_def)

text \<open>
  Claim C4, amended. On every pass of the detection loop with a detected hand (21
  landmarks) that runs at least \<open>GESTURE_DETECTION_INTERVAL\<close> (100 ms) after the last
  change of gesture, the current gesture label is the one the table gives for the five
  flags: all closed, fist; all open, open_palm; thumb only, thumbs_up; index and middle
  only, victory; index only, point; anything else, none; where a finger other than the
  thumb is open iff its tip is above its base joint and the thumb iff its tip is beyond its
  base on the horizontal axis. On a pass inside the interval \<open>detectGesture\<close> returns at
  once and the label, like every other variable, stays as it was.
\<close>

theorem gesture_label_from_fingers:
  assumes "isDetecting s" "handposeModel s" "21 \<le> length (landmarks hand)"
  shows "(GESTURE_DETECTION_INTERVAL \<le> now - lastGestureTime s \<longrightarrow>
            currentGesture (detectHands (hand # others) now s) = classify (landmarks hand)) \<and>
         (now - lastGestureTime s < GESTURE_DETECTION_INTERVAL \<longrightarrow>
            detectHands (hand # others) now s = s)"
proof -
  have "currentGesture (detectHands (hand # others) now s) = classify (landmarks hand)"
    if "GESTURE_DETECTION_INTERVAL \<le> now - lastGestureTime s"
    using detectGesture_eq [OF assms(3) that] detectHands_hand [OF assms(1,2)]
    by (simp add: Let_def)
  moreover have "detectHands (hand # others) now s = s"
    if "now - lastGestureTime s < GESTURE_DETECTION_INTERVAL"
    using detectGesture_throttled [OF that] detectHands_hand [OF assms(1,2)] by simp
  ultimately show ?thesis by blast
qed

lemma hand_pass:
  fixes others :: "hand list"
  assumes "isDetecting s" "handposeModel s" "21 \<le> length (landmarks hand)"
    and "GESTURE_DETECTION_INTERVAL \<le> now - lastGestureTime s"
  defines "s1 \<equiv> afterBranch (landmarks hand) now s"
  defines "s' \<equiv> detectHands (hand # others) now s"
  shows "swipes (dispatched s') = swipes (dispatched s1)"
    and "lastPalmPosition s' = lastPalmPosition s1"
    and "lastSwipeTime s' = lastSwipeTime s1"
    and "currentGesture s' = classify (landmarks hand)"
    and "previousGesture s' = classify (landmarks hand)"
    and "gestures (dispatched s') =
           gestures (dispatched s1) @
             (if classify (landmarks hand) \<noteq> previousGesture s1 then [classify (landmarks hand)] else [])"
  using detectGesture_eq [OF assms(3,4)] detectHands_hand [OF assms(1,2)]
  by (simp_all add: s'_def s1_def Let_def)

text \<open>
  On a pass that classifies a detected hand, a gesture event is dispatched exactly when the
  label differs from \<open>previousGesture\<close>, and \<open>previousGesture\<close> then is the label.
\<close>

lemma hand_pass_edge_triggered:
  fixes others :: "hand list"
  assumes "isDetecting s" "handposeModel s" "21 \<le> length (landmarks hand)"
    and "GESTURE_DETECTION_INTERVAL \<le> now - lastGestureTime s"
  shows "gestures (dispatched (detectHands (hand # others) now s)) =
           gestures (dispatched s) @
             (if classify (landmarks hand) \<noteq> previousGesture s then [classify (landmarks hand)] else [])"
    and "previousGesture (detectHands (hand # others) now s) = classify (landmarks hand)"
proof -
  have "gestures (dispatched (afterBranch (landmarks hand) now s)) = gestures (dispatched s)"
    and "previousGesture (afterBranch (landmarks hand) now s) = previousGesture s"
    using detectPalmSwipe_eq [OF assms(3), of now s]
    by (auto simp: afterBranch_def split: option.splits)
  then show "gestures (dispatched (detectHands (hand # others) now s)) =
           gestures (dispatched s) @
             (if classify (landmarks hand) \<noteq> previousGesture s then [classify (landmarks hand)] else [])"
    using hand_pass(6) [OF assms, of others] by simp
  show "previousGesture (detectHands (hand # others) now s) = classify (landmarks hand)"
    by (rule hand_pass(5) [OF assms])
qed

text \<open>
  Claim C6. \<open>detectPalmSwipe\<close>, which a pass runs exactly when it classifies the hand as
  an open palm, tracks the centroid of the six palm-base landmarks. With a recorded position
  and more than \<open>palmSwipeTimeout\<close> (300 ms) since the last swipe, a horizontal
  displacement of more than \<open>swipeThreshold\<close> (50) dispatches exactly one swipe event,
  \<open>right\<close> for a positive and \<open>left\<close> for a negative displacement, records the time and
  forgets the position, so that the next pass only records a position and cannot swipe
  again; a displacement of at most the threshold dispatches nothing and records the
  position, and so does a pass with no recorded position or inside the timeout. A pass that
  classifies any other gesture forgets the recorded position.
\<close>

theorem palm_swipe:
  assumes "21 \<le> length (landmarks hand)"
  shows "let lms = landmarks hand;
             s' = the (detectPalmSwipe lms now s);
             pass = detectHands (hand # others) now s;
             centroid = palmCentroid lms;
             deltaX = fst centroid - fst lastPos;
             armed = (lastPalmPosition s = Some lastPos \<and> now - lastSwipeTime s > palmSwipeTimeout);
             classifying = (isDetecting s \<and> handposeModel s \<and>
                            GESTURE_DETECTION_INTERVAL \<le> now - lastGestureTime s)
         in detectPalmSwipe lms now s = Some s' \<and>
            (armed \<and> deltaX > swipeThreshold \<longrightarrow>
               dispatched s' = dispatched s @ [SwipeEvent ''right''] \<and>
               lastPalmPosition s' = None \<and> lastSwipeTime s' = now) \<and>
            (armed \<and> deltaX < - swipeThreshold \<longrightarrow>
               dispatched s' = dispatched s @ [SwipeEvent ''left''] \<and>
               lastPalmPosition s' = None \<and> lastSwipeTime s' = now) \<and>
            (lastPalmPosition s = Some lastPos \<and> \<bar>deltaX\<bar> \<le> swipeThreshold \<longrightarrow>
               dispatched s' = dispatched s \<and>
               lastPalmPosition s' = Some centroid \<and> lastSwipeTime s' = lastSwipeTime s) \<and>
            (lastPalmPosition s = None \<or> now - lastSwipeTime s \<le> palmSwipeTimeout \<longrightarrow>
               dispatched s' = dispatched s \<and>
               lastPalmPosition s' = Some centroid \<and> lastSwipeTime s' = lastSwipeTime s) \<and>
            (classifying \<and> classify lms = ''open_palm'' \<longrightarrow>
               swipes (dispatched pass) = swipes (dispatched s') \<and>
               lastPalmPosition pass = lastPalmPosition s' \<and>
               lastSwipeTime pass = lastSwipeTime s') \<and>
            (classifying \<and> classify lms \<noteq> ''open_palm'' \<longrightarrow>
               swipes (dispatched pass) = swipes (dispatched s) \<and>
               lastPalmPosition pass = None \<and> lastSwipeTime pass = lastSwipeTime s)"
proof -
  note d = detectPalmSwipe_eq [OF assms, of now s]
  have tracked:
    "swipes (dispatched (detectHands (hand # others) now s)) =
       swipes (dispatched (the (detectPalmSwipe (landmarks hand) now s))) \<and>
     lastPalmPosition (detectHands (hand # others) now s) =
       lastPalmPosition (the (detectPalmSwipe (landmarks hand) now s)) \<and>
     lastSwipeTime (detectHands (hand # others) now s) =
       lastSwipeTime (the (detectPalmSwipe (landmarks hand) now s))"
    if "isDetecting s" "handposeModel s" "GESTURE_DETECTION_INTERVAL \<le> now - lastGestureTime s"
      "classify (landmarks hand) = ''open_palm''"
    using hand_pass(1,2,3) [OF that(1,2) assms that(3), of others] that(4)
    by (simp add: afterBranch_def)
  have reset:
    "swipes (dispatched (detectHands (hand # others) now s)) = swipes (dispatched s) \<and>
     lastPalmPosition (detectHands (hand # others) now s) = None \<and>
     lastSwipeTime (detectHands (hand # others) now s) = lastSwipeTime s"
    if "isDetecting s" "handposeModel s" "GESTURE_DETECTION_INTERVAL \<le> now - lastGestureTime s"
      "classify (landmarks hand) \<noteq> ''open_palm''"
    using hand_pass(1,2,3) [OF that(1,2) assms that(3), of others] that(4)
    by (simp add: afterBranch_def)
  have swipe:
    "detectPalmSwipe (landmarks hand) now s = Some (the (detectPalmSwipe (landmarks hand) now s))"
    using d by simp
  show ?thesis
    unfolding Let_def
    apply (intro conjI impI)
    subgoal by (rule swipe)
    subgoal using d by (auto simp: swipeThreshold_def)
    subgoal using d by (auto simp: swipeThreshold_def)
    subgoal using d by (auto simp: swipeThreshold_def)
    subgoal using d by (auto simp: swipeThreshold_def)
    subgoal using d by (auto simp: swipeThreshold_def)
    subgoal using d by (auto simp: swipeThreshold_def)
    subgoal using d by (auto simp: swipeThreshold_def)
    subgoal using d by (auto simp: swipeThreshold_def)
    subgoal using d by (auto simp: swipeThreshold_def)
    subgoal using d by (auto simp: swipeThreshold_def split: option.splits)
    subgoal using d by (auto simp: swipeThreshold_def split: option.splits)
    subgoal using d by (auto simp: swipeThreshold_def split: option.splits)
    subgoal using tracked by blast
    subgoal using tracked by blast
    subgoal using tracked by blast
    subgoal using reset by blast
    subgoal using reset by blast
    subgoal using reset by blast
    done
qed

lemma synthetic_length: "length (landmarks (syntheticHand cx t i m r p)) = 21"
  by (simp add: syntheticHand_def syntheticFinger_def)

lemma synthetic_classify:
  "classify (landmarks (syntheticHand cx t i m r p)) = gestureTable t i m r p"
  by (simp add: classify_def syntheticHand_def syntheticFinger_def HAND_LANDMARKS
      tipAboveBase_def tipBeyondBase_def)

lemma synthetic_centroid:
  "palmCentroid (landmarks (syntheticHand cx t i m r p)) = (cx, 300)"
  by (simp add: palmCentroid_def syntheticHand_def syntheticFinger_def HAND_LANDMARKS)

lemma classify_examples:
  "classify (landmarks (openPalmAt cx)) = ''open_palm''"
  "classify (landmarks (fistAt cx)) = ''fist''"
  by (simp_all add: openPalmAt_def fistAt_def synthetic_classify gestureTable_def)

lemma detectHands_synthetic:
  assumes "isDetecting s" "handposeModel s"
    and "GESTURE_DETECTION_INTERVAL \<le> now - lastGestureTime s"
  shows "detectHands [syntheticHand cx t i m r p] now s =
     (let s2 = (afterBranch (landmarks (syntheticHand cx t i m r p)) now s)
                 \<lparr>currentGesture := gestureTable t i m r p\<rparr>
      in if currentGesture s2 \<noteq> previousGesture s2
         then s2\<lparr>dispatched := dispatched s2 @ [GestureEvent (currentGesture s2)],
                 previousGesture := currentGesture s2, lastGestureTime := now\<rparr>
         else s2)"
  using detectGesture_eq [of "syntheticHand cx t i m r p" now s] assms
  by (simp add: detectHands_hand synthetic_length synthetic_classify)

lemma afterBranch_synthetic:
  "afterBranch (landmarks (syntheticHand cx t i m r p)) now s =
     (if t \<and> i \<and> m \<and> r \<and> p
      then (case lastPalmPosition s of
              Some lastPos \<Rightarrow>
                if now - lastSwipeTime s > palmSwipeTimeout \<and> \<bar>cx - fst lastPos\<bar> > swipeThreshold
                then s\<lparr>dispatched := dispatched s @
                           [SwipeEvent (if cx - fst lastPos > 0 then ''right'' else ''left'')],
                        lastSwipeTime := now, lastPalmPosition := None\<rparr>
                else s\<lparr>lastPalmPosition := Some (cx, 300)\<rparr>
            | None \<Rightarrow> s\<lparr>lastPalmPosition := Some (cx, 300)\<rparr>)
      else s\<lparr>lastPalmPosition := None\<rparr>)"
proof -
  have g: "(gestureTable t i m r p = ''open_palm'') = (t \<and> i \<and> m \<and> r \<and> p)"
    by (cases t; cases i; cases m; cases r; cases p; simp add: gestureTable_def)
  show ?thesis
  proof (cases "t \<and> i \<and> m \<and> r \<and> p")
    case True
    then have "gestureTable t i m r p = ''open_palm''" using g by simp
    then show ?thesis
      using True
      by (simp add: afterBranch_def synthetic_classify synthetic_centroid
          detectPalmSwipe_eq synthetic_length split: option.splits)
  next
    case False
    then have "gestureTable t i m r p \<noteq> ''open_palm''" using g by simp
    then show ?thesis
      by (simp only: afterBranch_def synthetic_classify if_not_P [OF False] if_False)
  qed
qed

lemma palmSeen_eq:
  "palmSeen = \<lparr>isDetecting = True, handposeModel = True, lastGestureTime = 1000,
      currentGesture = ''open_palm'', previousGesture = ''open_palm'',
      lastPalmPosition = Some (100, 300), lastSwipeTime = 0,
      dispatched = [GestureEvent ''open_palm'']\<rparr>"
  by (simp add: palmSeen_def openPalmAt_def detectHands_synthetic afterBranch_synthetic
      cameraStarted_def GESTURE_DETECTION_INTERVAL_def gestureTable_def Let_def)

lemma fistSeen_eq:
  "fistSeen = \<lparr>isDetecting = True, handposeModel = True, lastGestureTime = 1000,
      currentGesture = ''fist'', previousGesture = ''fist'',
      lastPalmPosition = None, lastSwipeTime = 0,
      dispatched = [GestureEvent ''fist'']\<rparr>"
  by (simp add: fistSeen_def fistAt_def detectHands_synthetic afterBranch_synthetic
      cameraStarted_def GESTURE_DETECTION_INTERVAL_def gestureTable_def Let_def)

text \<open>
  The counterexample to C4 as stated: an open palm is seen at time 1000; on the pass at
  time 1050 the hand is a fist (all five flags closed), and the label is still open_palm.
\<close>

theorem throttled_pass_keeps_label:
  "currentGesture (detectHands [fistAt 100] 1050 palmSeen) = ''open_palm'' \<and>
   classify (landmarks (fistAt 100)) = ''fist''"
  by (simp add: classify_examples detectHands_def detectGesture_def palmSeen_eq
      GESTURE_DETECTION_INTERVAL_def)

theorem gesture_label_from_fingers_witness:
  "currentGesture (detectHands [fistAt 100] 1100 palmSeen) = ''fist'' \<and>
   detectHands [fistAt 100] 1050 palmSeen = palmSeen"
  using gesture_label_from_fingers [of palmSeen "fistAt 100" 1100 "[]"]
    gesture_label_from_fingers [of palmSeen "fistAt 100" 1050 "[]"]
  by (simp add: palmSeen_eq fistAt_def synthetic_length classify_examples [unfolded fistAt_def]
      GESTURE_DETECTION_INTERVAL_def)

theorem palm_swipe_witness:
  "detectPalmSwipe (landmarks (openPalmAt 200)) 1500 palmSeen =
     Some (palmSeen\<lparr>dispatched := [GestureEvent ''open_palm'', SwipeEvent ''right''],
                    lastSwipeTime := 1500, lastPalmPosition := None\<rparr>) \<and>
   swipes (dispatched (detectHands [openPalmAt 200] 1500 palmSeen)) = [''right''] \<and>
   lastPalmPosition (detectHands [openPalmAt 200] 1500 palmSeen) = None \<and>
   swipes (dispatched (detectHands [openPalmAt 20] 1500 palmSeen)) = [''left''] \<and>
   swipes (dispatched (detectHands [openPalmAt 130] 1500 palmSeen)) = [] \<and>
   lastPalmPosition (detectHands [openPalmAt 130] 1500 palmSeen) = Some (130, 300) \<and>
   swipes (dispatched (detectHands [openPalmAt 300] 1500 cameraStarted)) = [] \<and>
   lastPalmPosition (detectHands [fistAt 300] 1500 palmSeen) = None"
  using palm_swipe [where hand = "openPalmAt 200" and now = 1500 and s = palmSeen
                      and others = "[]" and lastPos = "(100, 300)"]
    palm_swipe [where hand = "openPalmAt 20" and now = 1500 and s = palmSeen
                      and others = "[]" and lastPos = "(100, 300)"]
    palm_swipe [where hand = "openPalmAt 130" and now = 1500 and s = palmSeen
                      and others = "[]" and lastPos = "(100, 300)"]
    palm_swipe [where hand = "openPalmAt 300" and now = 1500 and s = cameraStarted
                      and others = "[]" and lastPos = "(100, 300)"]
    palm_swipe [where hand = "fistAt 300" and now = 1500 and s = palmSeen
                      and others = "[]" and lastPos = "(100, 300)"]
  by (simp add: palmSeen_eq cameraStarted_def openPalmAt_def fistAt_def synthetic_length
      synthetic_centroid classify_examples [unfolded openPalmAt_def fistAt_def] Let_def
      detectPalmSwipe_eq GESTURE_DETECTION_INTERVAL_def palmSwipeTimeout_def swipeThreshold_def)

text \<open>
  Claim C5 at a failing input. A fist is seen at time 1000 and its event dispatched. On the
  pass at 1200 no hand is detected: the label changes from fist to none, yet no event is
  dispatched and \<open>previousGesture\<close> stays fist. On the pass at 1400 the fist is back: the
  label changes from none to fist, and again nothing is dispatched. (On passes that classify
  a detected hand the events are edge-triggered: lemma \<open>hand_pass_edge_triggered\<close>.)
\<close>

theorem no_hand_pass_dispatches_nothing:
  "currentGesture fistSeen = ''fist'' \<and> dispatched fistSeen = [GestureEvent ''fist''] \<and>
   currentGesture (detectHands [] 1200 fistSeen) = ''none'' \<and>
   previousGesture (detectHands [] 1200 fistSeen) = ''fist'' \<and>
   dispatched (detectHands [] 1200 fistSeen) = [GestureEvent ''fist''] \<and>
   currentGesture (detectHands [fistAt 100] 1400 (detectHands [] 1200 fistSeen)) = ''fist'' \<and>
   dispatched (detectHands [fistAt 100] 1400 (detectHands [] 1200 fistSeen)) = [GestureEvent ''fist'']"
  by (simp add: fistSeen_eq detectHands_def [of "[]"] fistAt_def detectHands_synthetic
      afterBranch_synthetic GESTURE_DETECTION_INTERVAL_def gestureTable_def Let_def)

text \<open>
  Claim C10 at a failing input. An open palm is seen at \<open>x = 100\<close> at time 1000. On the
  pass at 1200 no hand is detected: the label becomes none, but the recorded palm position
  is kept. When an open palm comes into view at \<open>x = 300\<close> at time 2000, the stale position
  makes the pass dispatch a swipe to the right.
\<close>

theorem no_hand_pass_keeps_palm_position:
  "lastPalmPosition palmSeen = Some (100, 300) \<and>
   currentGesture (detectHands [] 1200 palmSeen) = ''none'' \<and>
   lastPalmPosition (detectHands [] 1200 palmSeen) = Some (100, 300) \<and>
   dispatched (detectHands [openPalmAt 300] 2000 (detectHands [] 1200 palmSeen)) =
     [GestureEvent ''open_palm'', SwipeEvent ''right'']"
  by (simp add: palmSeen_eq detectHands_def [of "[]"] openPalmAt_def detectHands_synthetic
      afterBranch_synthetic GESTURE_DETECTION_INTERVAL_def palmSwipeTimeout_def
      swipeThreshold_def gestureTable_def Let_def)

text \<open>
  Read off the two evaluations: the pass without a hand adds no event to those dispatched
  before it, and it hands the recorded palm position on unchanged.
\<close>

theorem no_hand_pass_dispatches_nothing_witness:
  "dispatched (detectHands [] 1200 fistSeen) = dispatched fistSeen \<and>
   currentGesture (detectHands [] 1200 fistSeen) \<noteq> currentGesture fistSeen"
  using no_hand_pass_dispatches_nothing by simp

theorem no_hand_pass_keeps_palm_position_witness:
  "lastPalmPosition (detectHands [] 1200 palmSeen) = lastPalmPosition palmSeen \<and>
   lastPalmPosition (detectHands [] 1200 palmSeen) \<noteq> None"
  using no_hand_pass_keeps_palm_position by simp

end
